theory Spec2Isabelle
  imports Main "HOL-Library.Word"
begin

section \<open>The graphics manager of kitty/graphics.c\<close>

text \<open>
  A shallow embedding of \<^verbatim>\<open>kitty/graphics.c\<close>. Each C function is a HOL function of
  the same name on an explicit state. Machine integers are words: \<^verbatim>\<open>uint32_t\<close> and
  \<^verbatim>\<open>int32_t\<close> are \<open>32 word\<close> (a signed read is \<open>sint\<close>, and signed overflow
  wraps as the compiled code does), \<^verbatim>\<open>size_t\<close>, \<^verbatim>\<open>id_type\<close>
  (\<^verbatim>\<open>unsigned long long\<close>) and \<^verbatim>\<open>monotonic_t\<close> (\<^verbatim>\<open>int64_t\<close>) are \<open>64 word\<close>.
  A pointer to an image is its index in the image array. The header
  \<^verbatim>\<open>graphics.h\<close> is not part of the sources at hand; the field types below are the
  ones the casts, the format strings and the local variables of \<^verbatim>\<open>graphics.c\<close>
  show.

  Not modelled: the bytes of the bitmaps (only which buffer is live and its sizes),
  the floating point rectangles (\<^verbatim>\<open>src_rect\<close>, the vertices), and the capacities
  that \<^verbatim>\<open>ensure_space_for\<close> grows (lists are unbounded).
\<close>

type_synonym u32 = "32 word"
type_synonym i32 = "32 word"
type_synonym size_t = "64 word"
type_synonym id_type = "64 word"
type_synonym monotonic_t = "64 word"

record CellPixelSize =
  cell_width :: u32
  cell_height :: u32

record Cursor =
  cur_x :: u32
  cur_y :: u32

record GraphicsCommand =
  g_action :: char
  g_transmission_type :: char
  g_compressed :: char
  g_delete_action :: char
  g_format :: u32
  g_more :: u32
  g_id :: u32
  g_image_number :: u32
  g_data_sz :: u32
  g_data_offset :: u32
  g_placement_id :: u32
  g_quiet :: u32
  g_width :: u32
  g_height :: u32
  g_x_offset :: u32
  g_y_offset :: u32
  g_data_height :: u32
  g_data_width :: u32
  g_num_cells :: u32
  g_num_lines :: u32
  g_cell_x_offset :: u32
  g_cell_y_offset :: u32
  g_z_index :: i32
  g_payload_sz :: size_t

text \<open>Where \<^verbatim>\<open>load_data.data\<close> points: nowhere, at \<^verbatim>\<open>buf\<close> or at \<^verbatim>\<open>mapped_file\<close>.\<close>

datatype data_ptr = Data_NULL | Data_buf | Data_mapped_file

record LoadData =
  ld_buf :: bool  \<comment> \<open>\<^verbatim>\<open>buf != NULL\<close>\<close>
  ld_buf_capacity :: size_t
  ld_buf_used :: size_t
  ld_mapped_file :: bool  \<comment> \<open>\<^verbatim>\<open>mapped_file != NULL\<close>\<close>
  ld_mapped_file_sz :: size_t
  ld_data_sz :: size_t
  ld_data :: data_ptr
  ld_is_4byte_aligned :: bool
  ld_is_opaque :: bool

record ImageRef =
  ref_src_width :: u32
  ref_src_height :: u32
  ref_src_x :: u32
  ref_src_y :: u32
  ref_cell_x_offset :: u32
  ref_cell_y_offset :: u32
  ref_num_cols :: u32
  ref_num_rows :: u32
  ref_effective_num_rows :: u32
  ref_effective_num_cols :: u32
  ref_z_index :: i32
  ref_start_row :: i32
  ref_start_column :: i32
  ref_client_id :: u32

text \<open>\<^verbatim>\<open>refcnt\<close> is the length of \<open>img_refs\<close>.\<close>

record Image =
  img_texture_id :: u32
  img_client_id :: u32
  img_client_number :: u32
  img_width :: u32
  img_height :: u32
  img_internal_id :: id_type
  img_data_loaded :: bool
  img_load_data :: LoadData
  img_refs :: "ImageRef list"
  img_atime :: monotonic_t
  img_used_storage :: size_t

record ImageRenderData =
  rd_texture_id :: u32
  rd_group_count :: u32
  rd_z_index :: i32
  rd_image_id :: id_type

record ScrollData =
  sd_amt :: i32
  sd_limit :: i32
  sd_margin_top :: u32
  sd_margin_bottom :: u32
  sd_has_margins :: bool

text \<open>
  The manager: \<^verbatim>\<open>image_count\<close> is the length of \<open>gm_images\<close> and \<^verbatim>\<open>count\<close> the
  length of \<open>gm_render_data\<close>.
\<close>

record GraphicsManager =
  gm_images :: "Image list"
  gm_last_init_graphics_command :: GraphicsCommand
  gm_loading_image :: id_type
  gm_render_data :: "ImageRenderData list"
  gm_layers_dirty :: bool
  gm_num_of_below_refs :: size_t
  gm_num_of_negative_refs :: size_t
  gm_num_of_positive_refs :: size_t
  gm_last_scrolled_by :: u32
  gm_used_storage :: size_t

text \<open>
  The state a command runs in: the manager, the file's static variables
  (\<^verbatim>\<open>command_response\<close>, \<^verbatim>\<open>internal_id_counter\<close>, \<^verbatim>\<open>send_to_gpu\<close>) and the two
  objects the caller passes by pointer (\<^verbatim>\<open>Cursor *c\<close>, \<^verbatim>\<open>bool *is_dirty\<close>).
\<close>

record World = GraphicsManager +
  command_response :: string
  internal_id_counter :: id_type
  send_to_gpu :: bool
  cursor :: Cursor
  is_dirty :: bool

text \<open>
  What the collaborators answer during one command: the clock, the allocator, the
  file system, zlib, the PNG reader and the GPU.
\<close>

datatype zlib_result =
  Z_init_failed string
  | Z_inflate_failed string
  | Z_avail_out_left
  | Z_stream_end

datatype png_result =
  Png_failed string string
  | Png_ok size_t u32 u32

record Env =
  e_monotonic_add :: monotonic_t
  e_monotonic_put :: monotonic_t
  e_malloc_ok :: bool
  e_realloc_ok :: bool
  e_open_ok :: bool
  e_fd :: int
  e_fstat :: "size_t option"
  e_mmap_ok :: bool
  e_errno :: int
  e_strerror :: string
  e_zlib :: zlib_result
  e_png :: png_result
  e_texture_id :: u32

definition STORAGE_LIMIT :: size_t where
  "STORAGE_LIMIT = 320 * (1024 * 1024)"

definition MAX_DATA_SZ :: size_t where
  "MAX_DATA_SZ = 4 * 100000000"

definition zero_LoadData :: LoadData where
  "zero_LoadData = \<lparr>ld_buf = False, ld_buf_capacity = 0, ld_buf_used = 0,
     ld_mapped_file = False, ld_mapped_file_sz = 0, ld_data_sz = 0, ld_data = Data_NULL,
     ld_is_4byte_aligned = False, ld_is_opaque = False\<rparr>"

definition zero_ImageRef :: ImageRef where
  "zero_ImageRef = \<lparr>ref_src_width = 0, ref_src_height = 0, ref_src_x = 0, ref_src_y = 0,
     ref_cell_x_offset = 0, ref_cell_y_offset = 0, ref_num_cols = 0, ref_num_rows = 0,
     ref_effective_num_rows = 0, ref_effective_num_cols = 0, ref_z_index = 0,
     ref_start_row = 0, ref_start_column = 0, ref_client_id = 0\<rparr>"

definition zero_Image :: Image where
  "zero_Image = \<lparr>img_texture_id = 0, img_client_id = 0, img_client_number = 0,
     img_width = 0, img_height = 0, img_internal_id = 0, img_data_loaded = False,
     img_load_data = zero_LoadData, img_refs = [], img_atime = 0, img_used_storage = 0\<rparr>"

definition zero_ImageRenderData :: ImageRenderData where
  "zero_ImageRenderData = \<lparr>rd_texture_id = 0, rd_group_count = 0, rd_z_index = 0,
     rd_image_id = 0\<rparr>"

subsection \<open>Array helpers and libc\<close>

text \<open>\<^verbatim>\<open>remove_i_from_array\<close>: the entries after \<open>i\<close> move down by one.\<close>

definition remove_i_from_array :: "'a list \<Rightarrow> nat \<Rightarrow> 'a list" where
  "remove_i_from_array xs i = take i xs @ drop (Suc i) xs"

text \<open>
  \<^verbatim>\<open>qsort\<close> of libc, driven by the comparator alone. The C standard fixes no
  algorithm; this is insertion from the right, which keeps the order of entries the
  comparator calls equal.
\<close>

fun qsort_insert :: "('a \<Rightarrow> 'a \<Rightarrow> int) \<Rightarrow> 'a \<Rightarrow> 'a list \<Rightarrow> 'a list" where
  "qsort_insert cmp x [] = [x]"
| "qsort_insert cmp x (y # ys) =
     (if cmp x y \<le> 0 then x # y # ys else y # qsort_insert cmp x ys)"

definition qsort :: "('a \<Rightarrow> 'a \<Rightarrow> int) \<Rightarrow> 'a list \<Rightarrow> 'a list" where
  "qsort cmp xs = foldr (qsort_insert cmp) xs []"

text \<open>The decimal digits that \<^verbatim>\<open>%u\<close>, \<^verbatim>\<open>%zu\<close> and \<^verbatim>\<open>%d\<close> print for a number.\<close>

function dec :: "int \<Rightarrow> string" where
  "dec n = (if n < 10 then [char_of (48 + n)] else dec (n div 10) @ [char_of (48 + n mod 10)])"
  by pat_completeness auto
termination
  by (relation "measure nat") auto

declare dec.simps [simp del]

subsection \<open>Images: lookup and removal\<close>

fun img_by_internal_id_from :: "Image list \<Rightarrow> nat \<Rightarrow> id_type \<Rightarrow> nat option" where
  "img_by_internal_id_from [] i ident = None"
| "img_by_internal_id_from (x # xs) i ident =
     (if img_internal_id x = ident then Some i else img_by_internal_id_from xs (Suc i) ident)"

definition img_by_internal_id :: "World \<Rightarrow> id_type \<Rightarrow> nat option" where
  "img_by_internal_id self ident = img_by_internal_id_from (gm_images self) 0 ident"

fun img_by_client_id_from :: "Image list \<Rightarrow> nat \<Rightarrow> u32 \<Rightarrow> nat option" where
  "img_by_client_id_from [] i ident = None"
| "img_by_client_id_from (x # xs) i ident =
     (if img_client_id x = ident then Some i else img_by_client_id_from xs (Suc i) ident)"

definition img_by_client_id :: "World \<Rightarrow> u32 \<Rightarrow> nat option" where
  "img_by_client_id self ident = img_by_client_id_from (gm_images self) 0 ident"

text \<open>The newest image with the number: the loop runs from the last index down.\<close>

fun img_by_client_number_below :: "Image list \<Rightarrow> nat \<Rightarrow> u32 \<Rightarrow> nat option" where
  "img_by_client_number_below xs 0 number = None"
| "img_by_client_number_below xs (Suc i) number =
     (if img_client_number (xs ! i) = number then Some i
      else img_by_client_number_below xs i number)"

definition img_by_client_number :: "World \<Rightarrow> u32 \<Rightarrow> nat option" where
  "img_by_client_number self number =
     img_by_client_number_below (gm_images self) (length (gm_images self)) number"

text \<open>
  \<^verbatim>\<open>remove_image\<close>: \<^verbatim>\<open>free_image\<close> takes the image's share off \<^verbatim>\<open>used_storage\<close>
  (a \<^verbatim>\<open>size_t\<close> subtraction), then the entry leaves the array.
\<close>

definition remove_image :: "World \<Rightarrow> nat \<Rightarrow> World" where
  "remove_image self idx =
     self\<lparr>gm_used_storage := gm_used_storage self - img_used_storage (gm_images self ! idx),
          gm_images := remove_i_from_array (gm_images self) idx,
          gm_layers_dirty := True\<rparr>"

text \<open>\<^verbatim>\<open>remove_images\<close>: \<^verbatim>\<open>for (size_t i = self->image_count; i-- > 0;)\<close>.\<close>

fun remove_images_below :: "(Image \<Rightarrow> bool) \<Rightarrow> id_type \<Rightarrow> nat \<Rightarrow> World \<Rightarrow> World" where
  "remove_images_below predicate skip 0 self = self"
| "remove_images_below predicate skip (Suc i) self =
     (let img = gm_images self ! i in
      remove_images_below predicate skip i
        (if img_internal_id img \<noteq> skip \<and> predicate img then remove_image self i else self))"

definition remove_images :: "World \<Rightarrow> (Image \<Rightarrow> bool) \<Rightarrow> id_type \<Rightarrow> World" where
  "remove_images self predicate skip_image_internal_id =
     remove_images_below predicate skip_image_internal_id (length (gm_images self)) self"

definition trim_predicate :: "Image \<Rightarrow> bool" where
  "trim_predicate img = (\<not> img_data_loaded img \<or> img_refs img = [])"

definition add_trim_predicate :: "Image \<Rightarrow> bool" where
  "add_trim_predicate img =
     (\<not> img_data_loaded img \<or> (img_client_id img = 0 \<and> img_refs img = []))"

subsection \<open>The storage quota\<close>

text \<open>\<^verbatim>\<open>oldest_last\<close>: the difference of two \<^verbatim>\<open>int64_t\<close> times, read signed.\<close>

definition oldest_last :: "Image \<Rightarrow> Image \<Rightarrow> int" where
  "oldest_last a b =
     (let ans = img_atime b - img_atime a in
      if sint ans < 0 then - 1 else if ans = 0 then 0 else 1)"

text \<open>
  The loop of \<^verbatim>\<open>apply_storage_quota\<close> that drops the last image while the quota is
  exceeded and an image is left.
\<close>

function quota_loop :: "size_t \<Rightarrow> World \<Rightarrow> World" where
  "quota_loop storage_limit self =
     (if gm_used_storage self > storage_limit \<and> length (gm_images self) > 0
      then quota_loop storage_limit (remove_image self (length (gm_images self) - 1))
      else self)"
  by pat_completeness auto
termination
  by (relation "measure (\<lambda>(l, s). length (gm_images s))")
     (auto simp: remove_image_def remove_i_from_array_def)

declare quota_loop.simps [simp del]

definition apply_storage_quota :: "World \<Rightarrow> size_t \<Rightarrow> id_type \<Rightarrow> World" where
  "apply_storage_quota self storage_limit currently_added_image_internal_id =
     (let s1 = remove_images self trim_predicate currently_added_image_internal_id in
      if gm_used_storage s1 < storage_limit then s1
      else
        let s2 = s1\<lparr>gm_images := qsort oldest_last (gm_images s1)\<rparr>;
            s3 = quota_loop storage_limit s2
        in if gm_images s3 = [] then s3\<lparr>gm_used_storage := 0\<rparr> else s3)"

subsection \<open>Responses\<close>

text \<open>
  \<^verbatim>\<open>set_command_failed_response\<close> prints the code, a colon and the message into the
  512 bytes of \<^verbatim>\<open>command_response\<close>; \<^verbatim>\<open>snprintf\<close> keeps at most 511 characters.
\<close>

definition set_command_failed_response :: "string \<Rightarrow> string \<Rightarrow> World \<Rightarrow> World" where
  "set_command_failed_response code msg self =
     self\<lparr>command_response := take 511 (code @ '':'' @ msg)\<rparr>"

text \<open>
  \<^verbatim>\<open>finish_command_response\<close>. The buffer \<^verbatim>\<open>rbuf\<close> has 640 bytes, which the longest
  response (551 characters) does not fill, so the prints are not cut.
\<close>

definition finish_command_response ::
  "GraphicsCommand \<Rightarrow> bool \<Rightarrow> u32 \<Rightarrow> u32 \<Rightarrow> u32 \<Rightarrow> World \<Rightarrow> string option \<times> World" where
  "finish_command_response g data_loaded iid placement_id image_number self =
     (let is_ok_response = (command_response self = []) in
      if g_quiet g \<noteq> 0 \<and> (is_ok_response \<or> g_quiet g > 1) then (None, self)
      else if iid \<noteq> 0 \<or> image_number \<noteq> 0 then
        (if is_ok_response \<and> \<not> data_loaded then (None, self)
         else
           let s1 = (if is_ok_response then self\<lparr>command_response := ''OK''\<rparr> else self) in
           (Some (''G''
              @ (if iid \<noteq> 0 then ''i='' @ dec (uint iid) else [])
              @ (if image_number \<noteq> 0 then '',I='' @ dec (uint image_number) else [])
              @ (if placement_id \<noteq> 0 then '',p='' @ dec (uint placement_id) else [])
              @ '';'' @ command_response s1), s1))
      else (None, self))"

subsection \<open>Loading image data\<close>

definition upd_image :: "nat \<Rightarrow> (Image \<Rightarrow> Image) \<Rightarrow> World \<Rightarrow> World" where
  "upd_image i f self = self\<lparr>gm_images := (gm_images self)[i := f (gm_images self ! i)]\<rparr>"

definition upd_load_data :: "nat \<Rightarrow> (LoadData \<Rightarrow> LoadData) \<Rightarrow> World \<Rightarrow> World" where
  "upd_load_data i f self = upd_image i (\<lambda>img. img\<lparr>img_load_data := f (img_load_data img)\<rparr>) self"

definition free_load_data :: "LoadData \<Rightarrow> LoadData" where
  "free_load_data ld = ld\<lparr>ld_buf := False, ld_buf_used := 0, ld_buf_capacity := 0,
     ld_mapped_file := False, ld_mapped_file_sz := 0\<rparr>"

text \<open>
  The macro \<^verbatim>\<open>ABRT\<close> of \<^verbatim>\<open>handle_add_command\<close>: the failure response is set,
  \<^verbatim>\<open>loading_image\<close> is cleared, the image (when there is one) is marked as not
  loaded, and the function returns \<^verbatim>\<open>NULL\<close>.
\<close>

definition ABRT :: "string \<Rightarrow> string \<Rightarrow> nat option \<Rightarrow> World \<Rightarrow> World" where
  "ABRT code msg img self =
     (let s1 = (set_command_failed_response code msg self)\<lparr>gm_loading_image := 0\<rparr> in
      case img of
        None \<Rightarrow> s1
      | Some i \<Rightarrow> upd_image i (\<lambda>x. x\<lparr>img_data_loaded := False\<rparr>) s1)"

definition tt_of :: "GraphicsCommand \<Rightarrow> char" where
  "tt_of g = (if g_transmission_type g \<noteq> CHR 0x00 then g_transmission_type g else CHR ''d'')"

definition fmt_of :: "GraphicsCommand \<Rightarrow> u32" where
  "fmt_of g = (if g_format g \<noteq> 0 then g_format g else 32)"

text \<open>\<^verbatim>\<open>find_or_create_image\<close>: whether the image existed, its index, the new state.\<close>

definition find_or_create_image :: "World \<Rightarrow> u32 \<Rightarrow> bool \<times> nat \<times> World" where
  "find_or_create_image self ident =
     (case (if ident \<noteq> 0 then img_by_client_id self ident else None) of
        Some i \<Rightarrow> (True, i, self)
      | None \<Rightarrow>
          (False, length (gm_images self), self\<lparr>gm_images := gm_images self @ [zero_Image]\<rparr>))"

text \<open>
  \<^verbatim>\<open>cmp_client_ids\<close> returns \<^verbatim>\<open>*x - *y\<close>: the difference of two \<^verbatim>\<open>uint32_t\<close>,
  taken modulo \<open>2^32\<close> and converted to \<^verbatim>\<open>int\<close>.
\<close>

definition cmp_client_ids :: "u32 \<Rightarrow> u32 \<Rightarrow> int" where
  "cmp_client_ids x y = sint (x - y)"

text \<open>The scan of \<^verbatim>\<open>get_free_client_id\<close> over the sorted ids.\<close>

fun free_client_id_scan :: "u32 list \<Rightarrow> u32 \<Rightarrow> u32 \<Rightarrow> u32" where
  "free_client_id_scan [] prev_id ans = ans"
| "free_client_id_scan (c # cs) prev_id ans =
     (if c = prev_id then free_client_id_scan cs prev_id ans
      else if c \<noteq> ans then ans
      else free_client_id_scan cs c (c + 1))"

definition get_free_client_id :: "World \<Rightarrow> u32" where
  "get_free_client_id self =
     (if gm_images self = [] then 1
      else
        let client_ids = filter (\<lambda>c. c \<noteq> 0) (map img_client_id (gm_images self)) in
        if client_ids = [] then 1
        else free_client_id_scan (qsort cmp_client_ids client_ids) 0 1)"

text \<open>
  The first chunk of an add (\<^verbatim>\<open>init_img\<close>). \<open>Inl\<close> is the state after \<^verbatim>\<open>ABRT\<close>;
  \<open>Inr\<close> carries on with the image's index.
\<close>

definition add_init_image :: "Env \<Rightarrow> GraphicsCommand \<Rightarrow> u32 \<Rightarrow> World \<Rightarrow> World \<times> nat" where
  "add_init_image env g iid self =
     (let s1 = remove_images self add_trim_predicate 0;
          (existing, i, s2) = find_or_create_image s1 iid;
          s3 = (if existing then
                  (upd_image i (\<lambda>img. img\<lparr>img_load_data := free_load_data (img_load_data img),
                     img_data_loaded := False, img_refs := []\<rparr>) s2)
                  \<lparr>gm_layers_dirty := True, is_dirty := True\<rparr>
                else
                  let s2a = upd_image i (\<lambda>img. img\<lparr>img_internal_id := internal_id_counter s2,
                              img_client_id := iid, img_client_number := g_image_number g\<rparr>)
                              (s2\<lparr>internal_id_counter := internal_id_counter s2 + 1\<rparr>)
                  in if iid = 0 \<and> g_image_number g \<noteq> 0 then
                       let free_id = get_free_client_id s2a in
                       (upd_image i (\<lambda>img. img\<lparr>img_client_id := free_id\<rparr>) s2a)
                       \<lparr>gm_last_init_graphics_command :=
                          (gm_last_init_graphics_command s2a)\<lparr>g_id := free_id\<rparr>\<rparr>
                     else s2a)
      in (upd_image i (\<lambda>img. img\<lparr>img_atime := e_monotonic_add env, img_used_storage := 0,
            img_width := g_data_width g, img_height := g_data_height g\<rparr>) s3, i))"

definition add_init_format :: "GraphicsCommand \<Rightarrow> u32 \<Rightarrow> nat \<Rightarrow> World \<Rightarrow> World + World" where
  "add_init_format g fmt i self =
     (if fmt = 100 then
        (if ucast (g_data_sz g) > MAX_DATA_SZ
         then Inl (ABRT ''EINVAL'' ''PNG data size too large'' (Some i) self)
         else Inr (upd_load_data i (\<lambda>ld. ld\<lparr>ld_is_4byte_aligned := True, ld_is_opaque := False,
                 ld_data_sz := (if g_data_sz g \<noteq> 0 then ucast (g_data_sz g) else 1024 * 100)\<rparr>) self))
      else if fmt = 24 \<or> fmt = 32 then
        (let data_sz = (ucast (g_data_width g) :: size_t) * ucast (g_data_height g) * ucast (fmt div 8);
             s1 = upd_load_data i (\<lambda>ld. ld\<lparr>ld_data_sz := data_sz\<rparr>) self
         in if data_sz = 0
            then Inl (ABRT ''EINVAL'' ''Zero width/height not allowed'' (Some i) s1)
            else Inr (upd_load_data i (\<lambda>ld. ld\<lparr>
                   ld_is_4byte_aligned := (fmt = 32 \<or> img_width (gm_images s1 ! i) mod 4 = 0),
                   ld_is_opaque := (fmt = 24)\<rparr>) s1))
      else Inl (ABRT ''EINVAL'' (''Unknown image format: '' @ dec (uint fmt)) (Some i) self))"

definition add_init_buffer :: "Env \<Rightarrow> GraphicsCommand \<Rightarrow> nat \<Rightarrow> World \<Rightarrow> World + World" where
  "add_init_buffer env g i self =
     (let s1 = (if g_more g \<noteq> 0
                then self\<lparr>gm_loading_image := img_internal_id (gm_images self ! i)\<rparr> else self);
          s2 = upd_load_data i (\<lambda>ld. ld\<lparr>
                 ld_buf_capacity := ld_data_sz ld + (if g_compressed g \<noteq> CHR 0x00 then 1024 else 10),
                 ld_buf := e_malloc_ok env, ld_buf_used := 0\<rparr>) s1
      in if \<not> e_malloc_ok env then Inl (ABRT ''ENOMEM'' ''Out of memory'' (Some i) s2)
         else Inr s2)"

definition handle_add_init :: "Env \<Rightarrow> GraphicsCommand \<Rightarrow> u32 \<Rightarrow> World \<Rightarrow> World + World \<times> nat" where
  "handle_add_init env g iid self =
     (let s0 = self\<lparr>gm_last_init_graphics_command := g\<lparr>g_id := iid\<rparr>, gm_loading_image := 0\<rparr> in
      if g_data_width g > 10000 \<or> g_data_height g > 10000
      then Inl (ABRT ''EINVAL'' ''Image too large'' None s0)
      else
        let (s1, i) = add_init_image env g iid s0 in
        case add_init_format g (fmt_of g) i s1 of
          Inl a \<Rightarrow> Inl a
        | Inr s2 \<Rightarrow>
            if tt_of g = CHR ''d'' then
              (case add_init_buffer env g i s2 of Inl a \<Rightarrow> Inl a | Inr s3 \<Rightarrow> Inr (s3, i))
            else Inr (s2, i))"

text \<open>
  A later chunk: the saved command takes over, with the \<^verbatim>\<open>more\<close> and the
  \<^verbatim>\<open>payload_sz\<close> of this chunk.
\<close>

definition handle_add_continue :: "GraphicsCommand \<Rightarrow> World \<Rightarrow> World + World \<times> nat" where
  "handle_add_continue g self =
     (let s0 = self\<lparr>gm_last_init_graphics_command :=
                 (gm_last_init_graphics_command self)\<lparr>g_more := g_more g,
                    g_payload_sz := g_payload_sz g\<rparr>\<rparr> in
      case img_by_internal_id s0 (gm_loading_image s0) of
        None \<Rightarrow> Inl (ABRT ''EILSEQ'' ''More payload loading refers to non-existent image'' None
                  (s0\<lparr>gm_loading_image := 0\<rparr>))
      | Some i \<Rightarrow> Inr (s0, i))"

text \<open>
  Direct transmission: the payload of this chunk goes into the buffer, which grows
  once when the payload does not fit. All sizes are \<^verbatim>\<open>size_t\<close>.
\<close>

definition add_direct_copy :: "GraphicsCommand \<Rightarrow> nat \<Rightarrow> World \<Rightarrow> World" where
  "add_direct_copy g i self =
     (let s1 = upd_load_data i (\<lambda>ld. ld\<lparr>ld_buf_used := ld_buf_used ld + g_payload_sz g\<rparr>) self in
      if g_more g = 0
      then (upd_image i (\<lambda>img. img\<lparr>img_data_loaded := True\<rparr>) s1)\<lparr>gm_loading_image := 0\<rparr>
      else s1)"

definition add_direct :: "Env \<Rightarrow> GraphicsCommand \<Rightarrow> u32 \<Rightarrow> nat \<Rightarrow> World \<Rightarrow> World + World" where
  "add_direct env g fmt i self =
     (let ld = img_load_data (gm_images self ! i) in
      if ld_buf_capacity ld - ld_buf_used ld < g_payload_sz g then
        (if ld_buf_used ld + g_payload_sz g > MAX_DATA_SZ \<or> fmt \<noteq> 100
         then Inl (ABRT ''EFBIG'' ''Too much data'' (Some i) self)
         else
           let s1 = upd_load_data i (\<lambda>ld. ld\<lparr>
                      ld_buf_capacity := min (2 * ld_buf_capacity ld) MAX_DATA_SZ,
                      ld_buf := e_realloc_ok env\<rparr>) self
           in if \<not> e_realloc_ok env then Inl (ABRT ''ENOMEM'' ''Out of memory'' (Some i) s1)
              else Inr (add_direct_copy g i s1))
      else Inr (add_direct_copy g i self))"

text \<open>\<^verbatim>\<open>mmap_img_file\<close>: whether the file was mapped, and the new state.\<close>

definition mmap_img_file :: "Env \<Rightarrow> nat \<Rightarrow> size_t \<Rightarrow> u32 \<Rightarrow> World \<Rightarrow> bool \<times> World" where
  "mmap_img_file env i sz offset self =
     (let errtxt = ''['' @ dec (e_errno env) @ ''] '' @ e_strerror env in
      if sz = 0 \<and> e_fstat env = None then
        (False, set_command_failed_response ''EBADF''
           (''Failed to fstat() the fd: '' @ dec (e_fd env) @ '' file with error: '' @ errtxt) self)
      else
        let sz1 = (if sz = 0 then (case e_fstat env of Some st_size \<Rightarrow> st_size | None \<Rightarrow> 0)
                   else sz) in
        if \<not> e_mmap_ok env then
          (False, set_command_failed_response ''EBADF''
             (''Failed to map image file fd: '' @ dec (e_fd env) @ '' at offset: ''
                @ dec (uint offset) @ '' with size: '' @ dec (uint sz1) @ '' with error: '' @ errtxt)
             self)
        else (True, upd_load_data i (\<lambda>ld. ld\<lparr>ld_mapped_file := True, ld_mapped_file_sz := sz1\<rparr>) self))"

definition add_file :: "Env \<Rightarrow> GraphicsCommand \<Rightarrow> nat \<Rightarrow> World \<Rightarrow> World + World" where
  "add_file env g i self =
     (if g_payload_sz g > 2048 then Inl (ABRT ''EINVAL'' ''Filename too long'' (Some i) self)
      else if \<not> e_open_ok env then
        Inl (ABRT ''EBADF'' (''Failed to open file for graphics transmission with error: [''
               @ dec (e_errno env) @ ''] '' @ e_strerror env) (Some i) self)
      else
        let (ok, s1) = mmap_img_file env i (ucast (g_data_sz g)) (g_data_offset g) self in
        Inr (upd_image i (\<lambda>img. img\<lparr>img_data_loaded := ok\<rparr>) s1))"

definition add_transmit :: "Env \<Rightarrow> GraphicsCommand \<Rightarrow> char \<Rightarrow> u32 \<Rightarrow> nat \<Rightarrow> World \<Rightarrow> World + World" where
  "add_transmit env g tt fmt i self =
     (if tt = CHR ''d'' then add_direct env g fmt i self
      else if tt = CHR ''f'' \<or> tt = CHR ''t'' \<or> tt = CHR ''s'' then add_file env g i self
      else Inl (ABRT ''EINVAL'' (''Unknown transmission type: '' @ [g_transmission_type g])
                  (Some i) self))"

text \<open>The decoders: whether they succeeded, and the new state.\<close>

definition inflate_zlib :: "Env \<Rightarrow> nat \<Rightarrow> World \<Rightarrow> bool \<times> World" where
  "inflate_zlib env i self =
     (case e_zlib env of
        Z_init_failed err \<Rightarrow>
          (False, set_command_failed_response ''ENOMEM''
             (''Failed to initialize inflate with error: '' @ err) self)
      | Z_inflate_failed err \<Rightarrow>
          (False, set_command_failed_response ''EINVAL''
             (''Failed to inflate image data with error: '' @ err) self)
      | Z_avail_out_left \<Rightarrow>
          (False, set_command_failed_response ''EINVAL''
             ''Image data size post inflation does not match expected size'' self)
      | Z_stream_end \<Rightarrow>
          (True, upd_load_data i (\<lambda>ld. (free_load_data ld)\<lparr>ld_buf_capacity := ld_data_sz ld,
             ld_buf := True, ld_buf_used := ld_data_sz ld\<rparr>) self))"

definition inflate_png :: "Env \<Rightarrow> nat \<Rightarrow> World \<Rightarrow> bool \<times> World" where
  "inflate_png env i self =
     (case e_png env of
        Png_failed code msg \<Rightarrow> (False, set_command_failed_response code msg self)
      | Png_ok sz w h \<Rightarrow>
          (True, upd_image i (\<lambda>img. img\<lparr>img_width := w, img_height := h\<rparr>)
             (upd_load_data i (\<lambda>ld. (free_load_data ld)\<lparr>ld_buf := True, ld_buf_capacity := sz,
                ld_buf_used := sz, ld_data_sz := sz\<rparr>) self)))"

definition insufficient_msg :: "size_t \<Rightarrow> size_t \<Rightarrow> string" where
  "insufficient_msg have want =
     ''Insufficient image data: '' @ dec (uint have) @ '' < '' @ dec (uint want)"

text \<open>
  The branch \<^verbatim>\<open>needs_processing\<close>: the switch on \<^verbatim>\<open>g->compressed\<close>, the switch
  on the format, then the size check on the decoded buffer.
\<close>

definition add_switch_compressed :: "Env \<Rightarrow> GraphicsCommand \<Rightarrow> nat \<Rightarrow> World \<Rightarrow> World + World" where
  "add_switch_compressed env g i self =
     (if g_compressed g = CHR ''z'' then
        (let (ok, s1) = inflate_zlib env i self in
         if ok then Inr s1 else Inl (upd_image i (\<lambda>img. img\<lparr>img_data_loaded := False\<rparr>) s1))
      else if g_compressed g = CHR 0x00 then Inr self
      else Inl (ABRT ''EINVAL'' (''Unknown image compression: '' @ [g_compressed g])
                  (Some i) self))"

definition add_switch_fmt :: "Env \<Rightarrow> u32 \<Rightarrow> nat \<Rightarrow> World \<Rightarrow> World + World" where
  "add_switch_fmt env fmt i self =
     (if fmt = 100 then
        (let (ok, s1) = inflate_png env i self in
         if ok then Inr s1 else Inl (upd_image i (\<lambda>img. img\<lparr>img_data_loaded := False\<rparr>) s1))
      else Inr self)"

definition add_processed_data :: "nat \<Rightarrow> World \<Rightarrow> World + World" where
  "add_processed_data i self =
     (let s1 = upd_load_data i (\<lambda>ld. ld\<lparr>ld_data :=
                 (if ld_buf ld then Data_buf else Data_NULL)\<rparr>) self;
          ld = img_load_data (gm_images s1 ! i)
      in if ld_buf_used ld < ld_data_sz ld
         then Inl (ABRT ''ENODATA'' (insufficient_msg (ld_buf_used ld) (ld_data_sz ld))
                     (Some i) s1)
         else if ld_mapped_file ld
         then Inr (upd_load_data i (\<lambda>ld. ld\<lparr>ld_mapped_file := False,
                     ld_mapped_file_sz := 0\<rparr>) s1)
         else Inr s1)"

definition add_process :: "Env \<Rightarrow> GraphicsCommand \<Rightarrow> u32 \<Rightarrow> nat \<Rightarrow> World \<Rightarrow> World + World" where
  "add_process env g fmt i self =
     (case add_switch_compressed env g i self of
        Inl a \<Rightarrow> Inl a
      | Inr s1 \<Rightarrow>
          (case add_switch_fmt env fmt i s1 of
             Inl a \<Rightarrow> Inl a
           | Inr s2 \<Rightarrow> add_processed_data i s2))"

definition add_unprocessed :: "char \<Rightarrow> nat \<Rightarrow> World \<Rightarrow> World + World" where
  "add_unprocessed tt i self =
     (let ld = img_load_data (gm_images self ! i) in
      if tt = CHR ''d'' then
        (if ld_buf_used ld < ld_data_sz ld
         then Inl (ABRT ''ENODATA'' (insufficient_msg (ld_buf_used ld) (ld_data_sz ld)) (Some i) self)
         else Inr (upd_load_data i (\<lambda>ld. ld\<lparr>ld_data :=
                     (if ld_buf ld then Data_buf else Data_NULL)\<rparr>) self))
      else
        (if ld_mapped_file_sz ld < ld_data_sz ld
         then Inl (ABRT ''ENODATA'' (insufficient_msg (ld_mapped_file_sz ld) (ld_data_sz ld))
                     (Some i) self)
         else Inr (upd_load_data i (\<lambda>ld. ld\<lparr>ld_data :=
                     (if ld_mapped_file ld then Data_mapped_file else Data_NULL)\<rparr>) self)))"

text \<open>
  The end of \<^verbatim>\<open>handle_add_command\<close>: the size of the bitmap must be the one its
  dimensions need; then the bitmap goes to the GPU, unless \<^verbatim>\<open>send_to_gpu\<close> is off.
\<close>

definition add_upload :: "Env \<Rightarrow> nat \<Rightarrow> World \<Rightarrow> World + World" where
  "add_upload env i self =
     (let img = gm_images self ! i;
          ld = img_load_data img;
          required_sz = (if ld_is_opaque ld then 3 else 4) * (ucast (img_width img) :: size_t)
                          * ucast (img_height img)
      in if ld_data_sz ld \<noteq> required_sz then
           Inl (ABRT ''EINVAL'' (''Image dimensions: '' @ dec (uint (img_width img)) @ ''x''
                  @ dec (uint (img_height img)) @ '' do not match data size: ''
                  @ dec (uint (ld_data_sz ld)) @ '', expected size: '' @ dec (uint required_sz))
                  (Some i) self)
         else if img_data_loaded img \<and> send_to_gpu self then
           Inr ((upd_image i (\<lambda>img. img\<lparr>img_texture_id := e_texture_id env,
                    img_load_data := free_load_data (img_load_data img),
                    img_used_storage := required_sz\<rparr>) self)
                \<lparr>gm_used_storage := gm_used_storage self + required_sz\<rparr>)
         else Inr self)"

text \<open>\<^verbatim>\<open>handle_add_command\<close>: the new state and the image returned (\<open>None\<close> is \<^verbatim>\<open>NULL\<close>).\<close>

definition handle_add_command :: "Env \<Rightarrow> World \<Rightarrow> GraphicsCommand \<Rightarrow> u32 \<Rightarrow> World \<times> nat option" where
  "handle_add_command env self g0 iid =
     (let init_img = \<not> (tt_of g0 = CHR ''d'' \<and> gm_loading_image self \<noteq> 0) in
      case (if init_img then handle_add_init env g0 iid self else handle_add_continue g0 self) of
        Inl a \<Rightarrow> (a, None)
      | Inr (s1, i) \<Rightarrow>
          let g = (if init_img then g0 else gm_last_init_graphics_command s1);
              tt = tt_of g; fmt = fmt_of g
          in case add_transmit env g tt fmt i s1 of
               Inl a \<Rightarrow> (a, None)
             | Inr s2 \<Rightarrow>
                 if \<not> img_data_loaded (gm_images s2 ! i) then (s2, None)
                 else
                   let s3 = s2\<lparr>gm_loading_image := 0\<rparr> in
                   case (if g_compressed g \<noteq> CHR 0x00 \<or> fmt = 100
                         then add_process env g fmt i s3 else add_unprocessed tt i s3) of
                     Inl a \<Rightarrow> (a, None)
                   | Inr s4 \<Rightarrow>
                       (case add_upload env i s4 of
                          Inl a \<Rightarrow> (a, None)
                        | Inr s5 \<Rightarrow> (s5, Some i)))"

subsection \<open>Displaying images\<close>

text \<open>
  \<^verbatim>\<open>update_dest_rect\<close>. The divisions are those of \<^verbatim>\<open>uint32_t\<close>; a cell of a real
  font has a positive width and height, and C would trap on a zero one.
\<close>

definition update_dest_rect :: "ImageRef \<Rightarrow> u32 \<Rightarrow> u32 \<Rightarrow> CellPixelSize \<Rightarrow> ImageRef" where
  "update_dest_rect ref num_cols num_rows cell =
     (let num_cols1 =
            (if num_cols = 0 then
               (let t = ref_src_width ref + ref_cell_x_offset ref;
                    n = t div cell_width cell
                in if t > n * cell_width cell then n + 1 else n)
             else num_cols);
          num_rows1 =
            (if num_rows = 0 then
               (let t = ref_src_height ref + ref_cell_y_offset ref;
                    n = t div cell_height cell
                in if t > n * cell_height cell then n + 1 else n)
             else num_rows)
      in ref\<lparr>ref_effective_num_rows := num_rows1, ref_effective_num_cols := num_cols1\<rparr>)"

fun ref_by_client_id_from :: "ImageRef list \<Rightarrow> nat \<Rightarrow> u32 \<Rightarrow> nat option" where
  "ref_by_client_id_from [] i ident = None"
| "ref_by_client_id_from (x # xs) i ident =
     (if ref_client_id x = ident then Some i else ref_by_client_id_from xs (Suc i) ident)"

text \<open>The fields that \<^verbatim>\<open>handle_put_command\<close> writes into the placement.\<close>

definition put_ref ::
  "GraphicsCommand \<Rightarrow> Cursor \<Rightarrow> Image \<Rightarrow> CellPixelSize \<Rightarrow> ImageRef \<Rightarrow> ImageRef" where
  "put_ref g c img cell ref0 =
     (let r1 = ref0\<lparr>ref_src_x := g_x_offset g, ref_src_y := g_y_offset g,
                 ref_src_width := (if g_width g \<noteq> 0 then g_width g else img_width img),
                 ref_src_height := (if g_height g \<noteq> 0 then g_height g else img_height img)\<rparr>;
          r2 = r1\<lparr>ref_src_width := min (ref_src_width r1)
                 (img_width img - (if img_width img > ref_src_x r1 then ref_src_x r1 else img_width img))\<rparr>;
          r3 = r2\<lparr>ref_src_height := min (ref_src_height r2)
                 (img_height img - (if img_height img > ref_src_y r2 then ref_src_y r2 else img_height img))\<rparr>;
          r4 = r3\<lparr>ref_z_index := g_z_index g, ref_start_row := cur_y c, ref_start_column := cur_x c,
                 ref_cell_x_offset := min (g_cell_x_offset g) (cell_width cell - 1),
                 ref_cell_y_offset := min (g_cell_y_offset g) (cell_height cell - 1),
                 ref_num_cols := g_num_cells g, ref_num_rows := g_num_lines g\<rparr>;
          r5 = (if img_client_id img \<noteq> 0 then r4\<lparr>ref_client_id := g_placement_id g\<rparr> else r4)
      in update_dest_rect r5 (g_num_cells g) (g_num_lines g) cell)"

text \<open>
  \<^verbatim>\<open>handle_put_command\<close>: the id it returns and the new state. \<open>img\<close> is the image
  the caller hands over, or \<open>None\<close> for \<^verbatim>\<open>NULL\<close>.
\<close>

definition handle_put_command ::
  "Env \<Rightarrow> World \<Rightarrow> GraphicsCommand \<Rightarrow> nat option \<Rightarrow> CellPixelSize \<Rightarrow> u32 \<times> World" where
  "handle_put_command env self g img cell =
     (case (case img of
              Some i \<Rightarrow> Some i
            | None \<Rightarrow>
                if g_id g \<noteq> 0 then img_by_client_id self (g_id g)
                else if g_image_number g \<noteq> 0 then img_by_client_number self (g_image_number g)
                else None) of
        None \<Rightarrow>
          (g_id g, set_command_failed_response ''ENOENT''
             (''Put command refers to non-existent image with id: '' @ dec (uint (g_id g))
                @ '' and number: '' @ dec (uint (g_image_number g))) self)
      | Some i \<Rightarrow>
          let image = gm_images self ! i in
          if \<not> img_data_loaded image then
            (img_client_id image, set_command_failed_response ''ENOENT''
               (''Put command refers to image with id: '' @ dec (uint (g_id g))
                  @ '' that could not load its data'') self)
          else
            let refs = img_refs image;
                found = (if g_placement_id g \<noteq> 0 \<and> img_client_id image \<noteq> 0
                         then ref_by_client_id_from refs 0 (g_placement_id g) else None);
                (j, refs1) = (case found of
                                Some j \<Rightarrow> (j, refs)
                              | None \<Rightarrow> (length refs, refs @ [zero_ImageRef]));
                ref = put_ref g (cursor self) image cell (refs1 ! j);
                c = cursor self
            in (img_client_id image,
                (upd_image i (\<lambda>x. x\<lparr>img_refs := refs1[j := ref],
                    img_atime := e_monotonic_put env\<rparr>) self)
                \<lparr>gm_layers_dirty := True, is_dirty := True,
                  cursor := c\<lparr>cur_x := cur_x c + ref_effective_num_cols ref,
                              cur_y := cur_y c + (ref_effective_num_rows ref - 1)\<rparr>\<rparr>))"

text \<open>
  \<^verbatim>\<open>cmp_by_zindex_and_image\<close>: \<^verbatim>\<open>int ans = a->z_index - b->z_index\<close> is an \<^verbatim>\<open>int\<close>
  subtraction, which wraps; \<^verbatim>\<open>a->image_id - b->image_id\<close> is a difference of
  \<^verbatim>\<open>unsigned long long\<close> cut down to \<^verbatim>\<open>int\<close>.
\<close>

definition cmp_by_zindex_and_image :: "ImageRenderData \<Rightarrow> ImageRenderData \<Rightarrow> int" where
  "cmp_by_zindex_and_image a b =
     (let ans = sint (rd_z_index a - rd_z_index b) in
      if ans = 0 then sint (ucast (rd_image_id a - rd_image_id b) :: 32 word) else ans)"

text \<open>
  The group counts of \<^verbatim>\<open>grman_update_layers\<close>. \<open>group_scan\<close> is the inner loop
  \<^verbatim>\<open>while (i < count - 1 && render_data[++i].image_id == image_id) {}\<close>.
\<close>

function group_scan :: "ImageRenderData list \<Rightarrow> id_type \<Rightarrow> nat \<Rightarrow> nat" where
  "group_scan rd image_id i =
     (if i < length rd - 1
      then (if rd_image_id (rd ! Suc i) = image_id then group_scan rd image_id (Suc i) else Suc i)
      else i)"
  by pat_completeness auto
termination
  by (relation "measure (\<lambda>(rd, image_id, i). length rd - i)") auto

declare group_scan.simps [simp del]

function group_counts :: "ImageRenderData list \<Rightarrow> nat \<Rightarrow> ImageRenderData list" where
  "group_counts rd i =
     (if i < length rd then
        (let image_id = rd_image_id (rd ! i);
             start = i;
             i1 = (if start = length rd - 1 then length rd else group_scan rd image_id i)
         in group_counts (rd[start := (rd ! start)\<lparr>rd_group_count := of_nat (i1 - start)\<rparr>]) i1)
      else rd)"
  by pat_completeness auto
termination
proof (relation "measure (\<lambda>(rd, i). length rd - i)")
  show "wf (measure (\<lambda>(rd, i). length rd - i))" by simp
next
  fix rd :: "ImageRenderData list" and i x xa xb
  assume a: "i < length rd" "x = rd_image_id (rd ! i)" "xa = i"
    "xb = (if xa = length rd - 1 then length rd else group_scan rd x i)"
  have gt: "k < length r - 1 \<Longrightarrow> k < group_scan r image_id k" for r image_id k
  proof (induction r image_id k rule: group_scan.induct)
    case (1 r image_id k)
    show ?case
    proof (cases "rd_image_id (r ! Suc k) = image_id")
      case True
      show ?thesis
      proof (cases "Suc k < length r - 1")
        case True
        with 1 \<open>rd_image_id (r ! Suc k) = image_id\<close>
        have "Suc k < group_scan r image_id (Suc k)" by simp
        with 1 \<open>rd_image_id (r ! Suc k) = image_id\<close> show ?thesis
          by (subst group_scan.simps) simp
      next
        case False
        then have "group_scan r image_id (Suc k) = Suc k"
          by (subst group_scan.simps) simp
        with 1 \<open>rd_image_id (r ! Suc k) = image_id\<close> show ?thesis
          by (subst group_scan.simps) simp
      qed
    next
      case False
      with 1 show ?thesis by (subst group_scan.simps) simp
    qed
  qed
  show "((rd[xa := (rd ! xa)\<lparr>rd_group_count := of_nat (xb - xa)\<rparr>], xb), rd, i)
          \<in> measure (\<lambda>(rd, i). length rd - i)"
  proof (cases "i = length rd - 1")
    case True
    with a show ?thesis by simp
  next
    case False
    with a have "i < length rd - 1" by simp
    then have "i < group_scan rd x i" by (rule gt)
    with a False show ?thesis by simp
  qed
qed

declare group_counts.simps [simp del]

text \<open>
  \<^verbatim>\<open>grman_update_layers\<close>. Whether a placement is on the screen is decided in floating
  point from the geometry of the screen; here it is the parameter \<open>visible\<close>. The
  vertices are left out.
\<close>

definition layers_emit :: "Image \<Rightarrow> ImageRef \<Rightarrow> World \<Rightarrow> World" where
  "layers_emit img ref self =
     (let s1 = (if sint (ref_z_index ref) < - 1073741824
                then self\<lparr>gm_num_of_below_refs := gm_num_of_below_refs self + 1\<rparr>
                else if sint (ref_z_index ref) < 0
                then self\<lparr>gm_num_of_negative_refs := gm_num_of_negative_refs self + 1\<rparr>
                else self\<lparr>gm_num_of_positive_refs := gm_num_of_positive_refs self + 1\<rparr>)
      in s1\<lparr>gm_render_data := gm_render_data s1 @
              [zero_ImageRenderData\<lparr>rd_z_index := ref_z_index ref,
                 rd_image_id := img_internal_id img, rd_texture_id := img_texture_id img\<rparr>]\<rparr>)"

fun layers_refs :: "(ImageRef \<Rightarrow> bool) \<Rightarrow> Image \<Rightarrow> ImageRef list \<Rightarrow> World \<Rightarrow> World" where
  "layers_refs visible img [] self = self"
| "layers_refs visible img (ref # refs) self =
     layers_refs visible img refs (if visible ref then layers_emit img ref self else self)"

fun layers_images :: "(ImageRef \<Rightarrow> bool) \<Rightarrow> Image list \<Rightarrow> World \<Rightarrow> World" where
  "layers_images visible [] self = self"
| "layers_images visible (img # imgs) self =
     layers_images visible imgs (layers_refs visible img (img_refs img) self)"

definition grman_update_layers :: "(ImageRef \<Rightarrow> bool) \<Rightarrow> World \<Rightarrow> u32 \<Rightarrow> bool \<times> World" where
  "grman_update_layers visible self scrolled_by =
     (let s1 = self\<lparr>gm_layers_dirty := (gm_layers_dirty self \<or> gm_last_scrolled_by self \<noteq> scrolled_by),
                    gm_last_scrolled_by := scrolled_by\<rparr>
      in if \<not> gm_layers_dirty s1 then (False, s1)
         else
           let s2 = s1\<lparr>gm_layers_dirty := False, gm_num_of_below_refs := 0,
                       gm_num_of_negative_refs := 0, gm_num_of_positive_refs := 0,
                       gm_render_data := []\<rparr>;
               s3 = layers_images visible (gm_images s2) s2
           in if gm_render_data s3 = [] then (False, s3)
              else (True, s3\<lparr>gm_render_data :=
                      group_counts (qsort cmp_by_zindex_and_image (gm_render_data s3)) 0\<rparr>))"

subsection \<open>Image lifetime and scrolling\<close>

text \<open>
  The inner loop of \<^verbatim>\<open>filter_refs\<close> over the placements of one image, from the last
  index down: the placements left, and whether one matched.
\<close>

fun filter_refs_img :: "(ImageRef \<Rightarrow> bool) \<Rightarrow> nat \<Rightarrow> ImageRef list \<Rightarrow> ImageRef list \<times> bool" where
  "filter_refs_img filter_func 0 refs = (refs, False)"
| "filter_refs_img filter_func (Suc j) refs =
     (if filter_func (refs ! j)
      then (fst (filter_refs_img filter_func j (remove_i_from_array refs j)), True)
      else filter_refs_img filter_func j refs)"

fun filter_refs_below ::
  "(ImageRef \<Rightarrow> Image \<Rightarrow> bool) \<Rightarrow> bool \<Rightarrow> bool \<Rightarrow> nat \<Rightarrow> bool \<Rightarrow> World \<Rightarrow> World" where
  "filter_refs_below filter_func free_images only_first_image 0 matched self = self"
| "filter_refs_below filter_func free_images only_first_image (Suc i) matched self =
     (let img = gm_images self ! i;
          (refs, hit) = filter_refs_img (\<lambda>ref. filter_func ref img) (length (img_refs img)) (img_refs img);
          s1 = (if hit then (upd_image i (\<lambda>x. x\<lparr>img_refs := refs\<rparr>) self)\<lparr>gm_layers_dirty := True\<rparr>
                else self);
          s2 = (if refs = [] \<and> (free_images \<or> img_client_id img = 0) then remove_image s1 i else s1)
      in if only_first_image \<and> (matched \<or> hit) then s2
         else filter_refs_below filter_func free_images only_first_image i (matched \<or> hit) s2)"

definition filter_refs ::
  "World \<Rightarrow> bool \<Rightarrow> (ImageRef \<Rightarrow> Image \<Rightarrow> bool) \<Rightarrow> bool \<Rightarrow> World" where
  "filter_refs self free_images filter_func only_first_image =
     filter_refs_below filter_func free_images only_first_image (length (gm_images self)) False self"

text \<open>\<^verbatim>\<open>modify_refs\<close>: the filter changes the placement and says whether it goes.\<close>

fun modify_refs_img :: "(ImageRef \<Rightarrow> bool \<times> ImageRef) \<Rightarrow> nat \<Rightarrow> ImageRef list \<Rightarrow> ImageRef list" where
  "modify_refs_img filter_func 0 refs = refs"
| "modify_refs_img filter_func (Suc j) refs =
     (let (gone, ref) = filter_func (refs ! j) in
      modify_refs_img filter_func j (if gone then remove_i_from_array refs j else refs[j := ref]))"

fun modify_refs_below ::
  "(ImageRef \<Rightarrow> Image \<Rightarrow> bool \<times> ImageRef) \<Rightarrow> bool \<Rightarrow> nat \<Rightarrow> World \<Rightarrow> World" where
  "modify_refs_below filter_func free_images 0 self = self"
| "modify_refs_below filter_func free_images (Suc i) self =
     (let img = gm_images self ! i;
          refs = modify_refs_img (\<lambda>ref. filter_func ref img) (length (img_refs img)) (img_refs img);
          s1 = upd_image i (\<lambda>x. x\<lparr>img_refs := refs\<rparr>) self;
          s2 = (if refs = [] \<and> (free_images \<or> img_client_id img = 0) then remove_image s1 i else s1)
      in modify_refs_below filter_func free_images i s2)"

definition modify_refs ::
  "World \<Rightarrow> bool \<Rightarrow> (ImageRef \<Rightarrow> Image \<Rightarrow> bool \<times> ImageRef) \<Rightarrow> World" where
  "modify_refs self free_images filter_func =
     modify_refs_below filter_func free_images (length (gm_images self)) self"

definition scroll_filter_func :: "ScrollData \<Rightarrow> ImageRef \<Rightarrow> Image \<Rightarrow> bool \<times> ImageRef" where
  "scroll_filter_func d ref img =
     (let r1 = ref\<lparr>ref_start_row := ref_start_row ref + sd_amt d\<rparr> in
      (sint (ref_start_row r1 + ref_effective_num_rows r1) \<le> sint (sd_limit d), r1))"

text \<open>
  In \<^verbatim>\<open>ref_within_region\<close> and \<^verbatim>\<open>ref_outside_region\<close> a comparison with a margin cast
  to \<^verbatim>\<open>int32_t\<close> is signed; the sum of \<^verbatim>\<open>start_row\<close> and the unsigned
  \<^verbatim>\<open>effective_num_rows\<close> is unsigned, and so is its comparison.
\<close>

definition ref_within_region :: "ImageRef \<Rightarrow> u32 \<Rightarrow> u32 \<Rightarrow> bool" where
  "ref_within_region ref margin_top margin_bottom =
     (sint (ref_start_row ref) \<ge> sint margin_top
      \<and> ref_start_row ref + ref_effective_num_rows ref \<le> margin_bottom)"

definition ref_outside_region :: "ImageRef \<Rightarrow> u32 \<Rightarrow> u32 \<Rightarrow> bool" where
  "ref_outside_region ref margin_top margin_bottom =
     (ref_start_row ref + ref_effective_num_rows ref \<le> margin_top
      \<or> sint (ref_start_row ref) > sint margin_bottom)"

definition scroll_filter_margins_func ::
  "CellPixelSize \<Rightarrow> ScrollData \<Rightarrow> ImageRef \<Rightarrow> Image \<Rightarrow> bool \<times> ImageRef" where
  "scroll_filter_margins_func cell d ref img =
     (if ref_within_region ref (sd_margin_top d) (sd_margin_bottom d) then
        (let r1 = ref\<lparr>ref_start_row := ref_start_row ref + sd_amt d\<rparr> in
         if ref_outside_region r1 (sd_margin_top d) (sd_margin_bottom d) then (True, r1)
         else if sint (ref_start_row r1) < sint (sd_margin_top d) then
           (let clipped_rows = sd_margin_top d - ref_start_row r1;
                clip_amt = cell_height cell * clipped_rows
            in if ref_src_height r1 \<le> clip_amt then (True, r1)
               else
                 let r2 = r1\<lparr>ref_src_y := ref_src_y r1 + clip_amt,
                            ref_src_height := ref_src_height r1 - clip_amt,
                            ref_effective_num_rows := ref_effective_num_rows r1 - clipped_rows\<rparr>;
                     r3 = r2\<lparr>ref_start_row := ref_start_row r2 + clipped_rows\<rparr>
                 in (ref_outside_region r3 (sd_margin_top d) (sd_margin_bottom d), r3))
         else if ref_start_row r1 + ref_effective_num_rows r1 > sd_margin_bottom d then
           (let clipped_rows = ref_start_row r1 + ref_effective_num_rows r1 - sd_margin_bottom d;
                clip_amt = cell_height cell * clipped_rows
            in if ref_src_height r1 \<le> clip_amt then (True, r1)
               else
                 let r2 = r1\<lparr>ref_src_height := ref_src_height r1 - clip_amt,
                            ref_effective_num_rows := ref_effective_num_rows r1 - clipped_rows\<rparr>
                 in (ref_outside_region r2 (sd_margin_top d) (sd_margin_bottom d), r2))
         else (ref_outside_region r1 (sd_margin_top d) (sd_margin_bottom d), r1))
      else (False, ref))"

definition grman_scroll_images :: "World \<Rightarrow> ScrollData \<Rightarrow> CellPixelSize \<Rightarrow> World" where
  "grman_scroll_images self d cell =
     (if gm_images self \<noteq> [] then
        modify_refs (self\<lparr>gm_layers_dirty := True\<rparr>) True
          (if sd_has_margins d then scroll_filter_margins_func cell d else scroll_filter_func d)
      else self)"

definition clear_filter_func :: "ImageRef \<Rightarrow> Image \<Rightarrow> bool" where
  "clear_filter_func ref img = (sint (ref_start_row ref + ref_effective_num_rows ref) > 0)"



definition id_filter_func :: "GraphicsCommand \<Rightarrow> ImageRef \<Rightarrow> Image \<Rightarrow> bool" where
  "id_filter_func g ref img =
     (if g_id g \<noteq> 0 \<and> img_client_id img = g_id g
      then g_placement_id g = 0 \<or> ref_client_id ref = g_placement_id g
      else False)"

definition number_filter_func :: "GraphicsCommand \<Rightarrow> ImageRef \<Rightarrow> Image \<Rightarrow> bool" where
  "number_filter_func g ref img =
     (if g_image_number g \<noteq> 0 \<and> img_client_number img = g_image_number g
      then g_placement_id g = 0 \<or> ref_client_id ref = g_placement_id g
      else False)"

text \<open>
  \<^verbatim>\<open>x_filter_func\<close> compares signed on both sides. In \<^verbatim>\<open>y_filter_func\<close> the second
  comparison sits inside the cast,
  \<^verbatim>\<open>((int32_t)(g->y_offset - 1 < ref->start_row + ref->effective_num_rows))\<close>:
  both of its sides are unsigned.
\<close>

definition x_filter_func :: "GraphicsCommand \<Rightarrow> ImageRef \<Rightarrow> Image \<Rightarrow> bool" where
  "x_filter_func g ref img =
     (sint (ref_start_column ref) \<le> sint (g_x_offset g - 1)
      \<and> sint (g_x_offset g - 1) < sint (ref_start_column ref + ref_effective_num_cols ref))"

definition y_filter_func :: "GraphicsCommand \<Rightarrow> ImageRef \<Rightarrow> Image \<Rightarrow> bool" where
  "y_filter_func g ref img =
     (sint (ref_start_row ref) \<le> sint (g_y_offset g - 1)
      \<and> g_y_offset g - 1 < ref_start_row ref + ref_effective_num_rows ref)"

definition z_filter_func :: "GraphicsCommand \<Rightarrow> ImageRef \<Rightarrow> Image \<Rightarrow> bool" where
  "z_filter_func g ref img = (ref_z_index ref = g_z_index g)"

definition point_filter_func :: "GraphicsCommand \<Rightarrow> ImageRef \<Rightarrow> Image \<Rightarrow> bool" where
  "point_filter_func g ref img = (x_filter_func g ref img \<and> y_filter_func g ref img)"

definition point3d_filter_func :: "GraphicsCommand \<Rightarrow> ImageRef \<Rightarrow> Image \<Rightarrow> bool" where
  "point3d_filter_func g ref img = (z_filter_func g ref img \<and> point_filter_func g ref img)"

text \<open>
  \<^verbatim>\<open>handle_delete_command\<close>. For \<^verbatim>\<open>c\<close> and \<^verbatim>\<open>C\<close> the C code fills only
  \<^verbatim>\<open>x_offset\<close> and \<^verbatim>\<open>y_offset\<close> of a fresh command, the two fields the point
  filter reads.
\<close>

definition handle_delete_command :: "World \<Rightarrow> GraphicsCommand \<Rightarrow> World" where
  "handle_delete_command self g =
     (let a = g_delete_action g;
          c = cursor self;
          run = (\<lambda>u func only_first_image.
                   (filter_refs self (a = u) func only_first_image)\<lparr>is_dirty := True\<rparr>);
          s1 = (if a = CHR 0x00 \<or> a = CHR ''a'' \<or> a = CHR ''A'' then run CHR ''A'' clear_filter_func False
                else if a = CHR ''i'' \<or> a = CHR ''I'' then run CHR ''I'' (id_filter_func g) False
                else if a = CHR ''p'' \<or> a = CHR ''P'' then run CHR ''P'' (point_filter_func g) False
                else if a = CHR ''q'' \<or> a = CHR ''Q'' then run CHR ''Q'' (point3d_filter_func g) False
                else if a = CHR ''x'' \<or> a = CHR ''X'' then run CHR ''X'' (x_filter_func g) False
                else if a = CHR ''y'' \<or> a = CHR ''Y'' then run CHR ''Y'' (y_filter_func g) False
                else if a = CHR ''z'' \<or> a = CHR ''Z'' then run CHR ''Z'' (z_filter_func g) False
                else if a = CHR ''c'' \<or> a = CHR ''C'' then
                  run CHR ''C'' (point_filter_func
                    (g\<lparr>g_x_offset := cur_x c + 1, g_y_offset := cur_y c + 1\<rparr>)) False
                else if a = CHR ''n'' \<or> a = CHR ''N'' then run CHR ''N'' (number_filter_func g) True
                else self)
      in if gm_images s1 = [] \<and> gm_render_data s1 \<noteq> [] then s1\<lparr>gm_render_data := []\<rparr> else s1)"


subsection \<open>The command dispatcher\<close>

definition is_add_action :: "char \<Rightarrow> bool" where
  "is_add_action a = (a = CHR 0x00 \<or> a = CHR ''t'' \<or> a = CHR ''T'' \<or> a = CHR ''q'')"

text \<open>
  The add case of \<^verbatim>\<open>grman_handle_command\<close> up to the check of the quota: the add,
  the response, the put of action \<^verbatim>\<open>T\<close> and the trim after a query. It yields the
  response, the state and the \<^verbatim>\<open>internal_id\<close> of the image added (0 without one).
\<close>

definition grman_add_then_put ::
  "Env \<Rightarrow> World \<Rightarrow> GraphicsCommand \<Rightarrow> CellPixelSize \<Rightarrow> string option \<times> World \<times> id_type" where
  "grman_add_then_put env self g cell =
     (let is_query = (g_action g = CHR ''q'');
          q_iid = g_id g;
          iid = (if is_query then 0 else g_id g);
          (s1, image) = handle_add_command env self g iid;
          lic = gm_last_init_graphics_command s1;
          (ret, s2) = (if is_query then finish_command_response g (image \<noteq> None) q_iid 0 0 s1
                       else finish_command_response g (image \<noteq> None) (g_id lic)
                              (g_placement_id lic) (g_image_number lic) s1);
          s3 = (case image of
                  None \<Rightarrow> s2
                | Some i \<Rightarrow>
                    if g_action lic = CHR ''T'' \<and> img_data_loaded (gm_images s2 ! i)
                    then snd (handle_put_command env s2 lic (Some i) cell) else s2);
          added_image_id = (case image of
                              None \<Rightarrow> 0
                            | Some i \<Rightarrow> img_internal_id (gm_images s3 ! i));
          s4 = (if g_action g = CHR ''q'' then remove_images s3 add_trim_predicate 0 else s3)
      in (ret, s4, added_image_id))"

text \<open>\<^verbatim>\<open>grman_handle_command\<close>: the response (\<open>None\<close> is \<^verbatim>\<open>NULL\<close>) and the new state.\<close>

definition grman_handle_add ::
  "Env \<Rightarrow> World \<Rightarrow> GraphicsCommand \<Rightarrow> CellPixelSize \<Rightarrow> string option \<times> World" where
  "grman_handle_add env self g cell =
     (if g_action g = CHR ''q'' \<and> g_id g = 0 then (None, self)
      else
        let (ret, s4, added_image_id) = grman_add_then_put env self g cell
        in (ret, if gm_used_storage s4 > STORAGE_LIMIT
                 then apply_storage_quota s4 STORAGE_LIMIT added_image_id else s4))"

definition grman_handle_command ::
  "Env \<Rightarrow> World \<Rightarrow> GraphicsCommand \<Rightarrow> CellPixelSize \<Rightarrow> string option \<times> World" where
  "grman_handle_command env self0 g cell =
     (let self = self0\<lparr>command_response := []\<rparr> in
      if g_id g \<noteq> 0 \<and> g_image_number g \<noteq> 0 then
        finish_command_response g False (g_id g) (g_placement_id g) (g_image_number g)
          (set_command_failed_response ''EINVAL''
             ''Must not specify both image id and image number'' self)
      else if is_add_action (g_action g) then grman_handle_add env self g cell
      else if g_action g = CHR ''p'' then
        (if g_id g = 0 \<and> g_image_number g = 0 then (None, self)
         else
           let (image_id, s1) = handle_put_command env self g None cell in
           finish_command_response g True image_id (g_placement_id g) (g_image_number g) s1)
      else if g_action g = CHR ''d'' then (None, handle_delete_command self g)
      else (None, self))"

section \<open>Concrete states and commands\<close>

definition zero_GraphicsCommand :: GraphicsCommand where
  "zero_GraphicsCommand = \<lparr>g_action = CHR 0x00, g_transmission_type = CHR 0x00,
     g_compressed = CHR 0x00, g_delete_action = CHR 0x00, g_format = 0, g_more = 0, g_id = 0,
     g_image_number = 0, g_data_sz = 0, g_data_offset = 0, g_placement_id = 0, g_quiet = 0,
     g_width = 0, g_height = 0, g_x_offset = 0, g_y_offset = 0, g_data_height = 0,
     g_data_width = 0, g_num_cells = 0, g_num_lines = 0, g_cell_x_offset = 0,
     g_cell_y_offset = 0, g_z_index = 0, g_payload_sz = 0\<rparr>"

text \<open>The manager as \<^verbatim>\<open>grman_alloc\<close> leaves it, with the statics at their initial values.\<close>

definition grman_alloc :: World where
  "grman_alloc = \<lparr>gm_images = [], gm_last_init_graphics_command = zero_GraphicsCommand,
     gm_loading_image = 0, gm_render_data = [], gm_layers_dirty = False,
     gm_num_of_below_refs = 0, gm_num_of_negative_refs = 0, gm_num_of_positive_refs = 0,
     gm_last_scrolled_by = 0, gm_used_storage = 0, command_response = [],
     internal_id_counter = 1, send_to_gpu = True, cursor = \<lparr>cur_x = 0, cur_y = 0\<rparr>,
     is_dirty = False\<rparr>"

text \<open>Collaborators that all succeed, and a cell of 10 by 20 pixels.\<close>

definition env_ok :: Env where
  "env_ok = \<lparr>e_monotonic_add = 100, e_monotonic_put = 101, e_malloc_ok = True,
     e_realloc_ok = True, e_open_ok = True, e_fd = 3, e_fstat = Some 4, e_mmap_ok = True,
     e_errno = 0, e_strerror = ''Success'', e_zlib = Z_stream_end, e_png = Png_ok 4 1 1,
     e_texture_id = 7\<rparr>"

definition cell_10x20 :: CellPixelSize where
  "cell_10x20 = \<lparr>cell_width = 10, cell_height = 20\<rparr>"

text \<open>A whole RGBA image of one pixel, sent directly in one chunk of four bytes.\<close>

definition pixel_cmd :: "char \<Rightarrow> u32 \<Rightarrow> GraphicsCommand" where
  "pixel_cmd a ident = zero_GraphicsCommand\<lparr>g_action := a, g_id := ident, g_data_width := 1,
     g_data_height := 1, g_payload_sz := 4\<rparr>"

definition put_cmd :: "u32 \<Rightarrow> GraphicsCommand" where
  "put_cmd ident = zero_GraphicsCommand\<lparr>g_action := CHR ''p'', g_id := ident\<rparr>"

definition run :: "World \<Rightarrow> GraphicsCommand \<Rightarrow> World" where
  "run self g = snd (grman_handle_command env_ok self g cell_10x20)"

text \<open>Images with the client ids 1 and 3000000000 are loaded.\<close>

definition world_ids_1_3e9 :: World where
  "world_ids_1_3e9 = run (run grman_alloc (pixel_cmd CHR ''t'' 1)) (pixel_cmd CHR ''t'' 3000000000)"

text \<open>One image is placed twice, at z 2000000000 and at z -2000000000.\<close>

definition world_z_far_apart :: World where
  "world_z_far_apart =
     run (run grman_alloc ((pixel_cmd CHR ''T'' 5)\<lparr>g_z_index := 2000000000\<rparr>))
       ((put_cmd 5)\<lparr>g_z_index := - 2000000000\<rparr>)"

text \<open>One image is placed twice at the same z.\<close>

definition world_two_refs :: World where
  "world_two_refs = run (run grman_alloc (pixel_cmd CHR ''T'' 5)) (put_cmd 5)"

text \<open>
  One image is placed at row 3 and then scrolled up by 13 rows into the scrollback
  (no margins): its placement starts at row -10 and is one row high.
\<close>

definition world_scrolled_up :: World where
  "world_scrolled_up =
     grman_scroll_images (run (grman_alloc\<lparr>cursor := \<lparr>cur_x = 0, cur_y = 3\<rparr>\<rparr>) (pixel_cmd CHR ''T'' 5))
       \<lparr>sd_amt = - 13, sd_limit = - 1000, sd_margin_top = 0, sd_margin_bottom = 0,
         sd_has_margins = False\<rparr> cell_10x20"

section \<open>Definitions for the claims\<close>

subsection \<open>For C9: a put on an image that is not loaded\<close>

text \<open>
  The image a put resolves to when the caller hands none over (lines 579 and 580 of
  \<^verbatim>\<open>handle_put_command\<close>), and the failure response for an image without data.
\<close>

definition put_target :: "World \<Rightarrow> GraphicsCommand \<Rightarrow> nat option" where
  "put_target self g =
     (if g_id g \<noteq> 0 then img_by_client_id self (g_id g)
      else if g_image_number g \<noteq> 0 then img_by_client_number self (g_image_number g)
      else None)"

definition unloaded_msg :: "GraphicsCommand \<Rightarrow> string" where
  "unloaded_msg g =
     take 511 (''ENOENT:Put command refers to image with id: '' @ dec (uint (g_id g))
       @ '' that could not load its data'')"

text \<open>The first chunk of an image arrived and more is to come.\<close>

definition world_loading :: World where
  "world_loading = run grman_alloc ((pixel_cmd CHR ''t'' 5)\<lparr>g_more := 1, g_payload_sz := 2\<rparr>)"

subsection \<open>For C2: the source rectangle of a placement\<close>

text \<open>
  What the clamping of \<^verbatim>\<open>handle_put_command\<close> establishes for an offset \<open>x\<close>, an extent
  \<open>w\<close> and the size \<open>W\<close> of the image: the rectangle ends inside the image when it
  starts inside, and is empty otherwise.
\<close>

definition src_fits :: "u32 \<Rightarrow> u32 \<Rightarrow> u32 \<Rightarrow> bool" where
  "src_fits x w W = (if x < W then uint x + uint w \<le> uint W else w = 0)"

definition ref_clamped :: "Image \<Rightarrow> ImageRef \<Rightarrow> bool" where
  "ref_clamped img ref =
     (src_fits (ref_src_x ref) (ref_src_width ref) (img_width img)
      \<and> src_fits (ref_src_y ref) (ref_src_height ref) (img_height img))"

definition placements_clamped :: "World \<Rightarrow> bool" where
  "placements_clamped self =
     list_all (\<lambda>img. list_all (ref_clamped img) (img_refs img)) (gm_images self)"

text \<open>The spec's form of the invariant, for one placement.\<close>

definition ref_inside :: "Image \<Rightarrow> ImageRef \<Rightarrow> bool" where
  "ref_inside img ref =
     (uint (ref_src_x ref) + uint (ref_src_width ref) \<le> uint (img_width img)
      \<and> uint (ref_src_y ref) + uint (ref_src_height ref) \<le> uint (img_height img))"

text \<open>A placement is asked to start at pixel column 20 of an image one pixel wide.\<close>

definition world_put_beyond :: World where
  "world_put_beyond = run (run grman_alloc (pixel_cmd CHR ''t'' 5)) ((put_cmd 5)\<lparr>g_x_offset := 20\<rparr>)"



subsection \<open>For C5: growth of the buffer of a direct transmission\<close>



definition chunk_cmd :: "size_t \<Rightarrow> GraphicsCommand" where
  "chunk_cmd n = zero_GraphicsCommand\<lparr>g_payload_sz := n\<rparr>"

subsection \<open>For C3: the response\<close>

text \<open>
  The response in the words of the specification. A command is silenced at quiet
  level 1 when its outcome is OK and at level 2 or more always. The text is \<^verbatim>\<open>G\<close>,
  the id, the number and the placement id where they are nonzero, a semicolon and the
  outcome. \<open>command_reply\<close> takes the content of \<^verbatim>\<open>command_response\<close>, which is
  empty for a success.
\<close>

definition silenced :: "u32 \<Rightarrow> bool \<Rightarrow> bool" where
  "silenced quiet ok = (quiet \<noteq> 0 \<and> (ok \<or> quiet > 1))"

definition response_text :: "u32 \<Rightarrow> u32 \<Rightarrow> u32 \<Rightarrow> string \<Rightarrow> string" where
  "response_text iid image_number placement_id outcome =
     ''G'' @ (if iid \<noteq> 0 then ''i='' @ dec (uint iid) else [])
       @ (if image_number \<noteq> 0 then '',I='' @ dec (uint image_number) else [])
       @ (if placement_id \<noteq> 0 then '',p='' @ dec (uint placement_id) else [])
       @ '';'' @ outcome"

definition command_reply :: "u32 \<Rightarrow> bool \<Rightarrow> u32 \<Rightarrow> u32 \<Rightarrow> u32 \<Rightarrow> string \<Rightarrow> string option" where
  "command_reply quiet data_loaded iid placement_id image_number failure =
     (if \<not> silenced quiet (failure = []) \<and> \<not> (iid = 0 \<and> image_number = 0)
         \<and> (data_loaded \<or> failure \<noteq> [])
      then Some (response_text iid image_number placement_id
                   (if failure = [] then ''OK'' else failure))
      else None)"

definition delete_cmd :: "char \<Rightarrow> u32 \<Rightarrow> GraphicsCommand" where
  "delete_cmd a ident = zero_GraphicsCommand\<lparr>g_action := CHR ''d'', g_delete_action := a,
     g_id := ident\<rparr>"

subsection \<open>For C1: the storage quota\<close>








subsection \<open>For C10: adds without the GPU\<close>

text \<open>
  The images' storage is covered by the manager's \<^verbatim>\<open>used_storage\<close> (so that taking
  an image's share off does not wrap around). The bitmap is retained when
  \<^verbatim>\<open>load_data.data\<close> points at a buffer or a mapping that is still there. The image
  that a later chunk continues, if \<^verbatim>\<open>loading_image\<close> names one, is as its first
  chunk left it: no storage charged and the buffer allocated.
\<close>

definition storage_covered :: "World \<Rightarrow> bool" where
  "storage_covered self =
     (sum_list (map (\<lambda>img. uint (img_used_storage img)) (gm_images self))
        \<le> uint (gm_used_storage self))"

definition bitmap_retained :: "LoadData \<Rightarrow> bool" where
  "bitmap_retained ld =
     (if ld_data ld = Data_buf then ld_buf ld
      else if ld_data ld = Data_mapped_file then ld_mapped_file ld
      else False)"

definition loading_image_ready :: "World \<Rightarrow> bool" where
  "loading_image_ready self =
     (case img_by_internal_id self (gm_loading_image self) of
        None \<Rightarrow> True
      | Some i \<Rightarrow> img_used_storage (gm_images self ! i) = 0
                  \<and> ld_buf (img_load_data (gm_images self ! i)))"

text \<open>What the proof follows through the stages of \<^verbatim>\<open>handle_add_command\<close>.\<close>

definition tracked :: "int \<Rightarrow> nat \<Rightarrow> World \<Rightarrow> bool" where
  "tracked U i s =
     (i < length (gm_images s) \<and> img_used_storage (gm_images s ! i) = 0
      \<and> \<not> send_to_gpu s \<and> uint (gm_used_storage s) \<le> U)"

definition framed :: "int \<Rightarrow> nat \<Rightarrow> World \<Rightarrow> bool" where
  "framed U i s =
     (i < length (gm_images s) \<and> \<not> send_to_gpu s \<and> uint (gm_used_storage s) \<le> U)"

text \<open>
  GPU uploads are switched off; the first two bytes of a one pixel RGBA image have
  arrived, and the chunk with the other two bytes completes it.
\<close>

definition world_no_gpu_loading :: World where
  "world_no_gpu_loading =
     run (grman_alloc\<lparr>send_to_gpu := False\<rparr>) ((pixel_cmd CHR ''t'' 5)\<lparr>g_more := 1, g_payload_sz := 2\<rparr>)"

section \<open>The claims\<close>

subsection \<open>C4: the free client id\<close>

text \<open>
  The comparator of the sort in \<^verbatim>\<open>get_free_client_id\<close> returns a difference of
  \<^verbatim>\<open>uint32_t\<close> as an \<^verbatim>\<open>int\<close>. For ids 2^31 or more apart the sign is wrong: the
  comparator puts 3000000000 before 1, whatever the order of its arguments, so every
  sort that follows it does.
\<close>

lemma cmp_client_ids_far_apart:
  "cmp_client_ids 1 3000000000 > 0" "cmp_client_ids 3000000000 1 < 0"
  by (simp_all add: cmp_client_ids_def)

text \<open>
  C4 (a defect of the code). The claim: an add with id 0 and a nonzero image number
  gives the new image the smallest positive client id that no image uses. The code
  at this input: the images with the client ids 1 and 3000000000 exist; the add with
  id 0 and number 7 answers \<^verbatim>\<open>Gi=1,I=7;OK\<close>, and two images have the client id 1
  afterwards.
\<close>

theorem C4_free_client_id_in_use:
  "map img_client_id (gm_images world_ids_1_3e9) = [1, 3000000000]
   \<and> get_free_client_id world_ids_1_3e9 = 1
   \<and> fst (grman_handle_command env_ok world_ids_1_3e9
            ((pixel_cmd CHR ''t'' 0)\<lparr>g_image_number := 7\<rparr>) cell_10x20) = Some ''Gi=1,I=7;OK''
   \<and> map img_client_id (gm_images (run world_ids_1_3e9
            ((pixel_cmd CHR ''t'' 0)\<lparr>g_image_number := 7\<rparr>))) = [1, 3000000000, 1]"
proof (intro conjI)
  show "map img_client_id (gm_images world_ids_1_3e9) = [1, 3000000000]"
    by code_simp
  show "get_free_client_id world_ids_1_3e9 = 1"
    by code_simp
  show "fst (grman_handle_command env_ok world_ids_1_3e9
          ((pixel_cmd CHR ''t'' 0)\<lparr>g_image_number := 7\<rparr>) cell_10x20) = Some ''Gi=1,I=7;OK''"
    by code_simp
  show "map img_client_id (gm_images (run world_ids_1_3e9
          ((pixel_cmd CHR ''t'' 0)\<lparr>g_image_number := 7\<rparr>))) = [1, 3000000000, 1]"
    by code_simp
qed

subsection \<open>C6: the order of the render data\<close>

text \<open>
  The comparator subtracts the two z indices as \<^verbatim>\<open>int\<close>. For -2000000000 and
  2000000000 the difference wraps to 294967296: the comparator puts the larger z
  first, in both argument orders.
\<close>

lemma cmp_by_zindex_far_apart:
  "cmp_by_zindex_and_image (zero_ImageRenderData\<lparr>rd_z_index := - 2000000000\<rparr>)
     (zero_ImageRenderData\<lparr>rd_z_index := 2000000000\<rparr>) = 294967296"
  "cmp_by_zindex_and_image (zero_ImageRenderData\<lparr>rd_z_index := 2000000000\<rparr>)
     (zero_ImageRenderData\<lparr>rd_z_index := - 2000000000\<rparr>) = - 294967296"
  by (simp_all add: cmp_by_zindex_and_image_def zero_ImageRenderData_def)

text \<open>
  C6 (a defect of the code). The claim: after \<^verbatim>\<open>grman_update_layers\<close> the render data
  are in ascending order of z, also for z values of opposite sign that are more than
  \<^verbatim>\<open>INT32_MAX\<close> apart. The code at this input: with two visible placements at z
  2000000000 and z -2000000000 the render data come out as 2000000000 first,
  -2000000000 second.
\<close>

theorem C6_render_data_descending:
  "map (\<lambda>r. sint (rd_z_index r))
     (gm_render_data (snd (grman_update_layers (\<lambda>r. True) world_z_far_apart 0)))
   = [2000000000, - 2000000000]"
  by code_simp

subsection \<open>C7: the group counts\<close>

text \<open>
  C7 (a defect of the code). The claim: the first entry of every maximal run of equal
  image ids carries the length of the run, also when the run ends at the last entry.
  The code at this input: two visible placements of one image give two render entries
  with the image id 1, a run of length 2 that ends at the last entry, and the first
  entry gets the group count 1.
\<close>

theorem C7_last_run_cut_short:
  "map rd_image_id (gm_render_data (snd (grman_update_layers (\<lambda>r. True) world_two_refs 0))) = [1, 1]
   \<and> map rd_group_count
        (gm_render_data (snd (grman_update_layers (\<lambda>r. True) world_two_refs 0))) = [1, 1]"
proof (intro conjI)
  show "map rd_image_id
          (gm_render_data (snd (grman_update_layers (\<lambda>r. True) world_two_refs 0))) = [1, 1]"
    by code_simp
  show "map rd_group_count
          (gm_render_data (snd (grman_update_layers (\<lambda>r. True) world_two_refs 0))) = [1, 1]"
    by code_simp
qed

subsection \<open>C8: deleting by row\<close>

text \<open>
  C8 (a defect of the code). The claim: the delete action \<^verbatim>\<open>y\<close> removes exactly the
  placements whose rows contain the row \<^verbatim>\<open>y_offset - 1\<close>, also when \<^verbatim>\<open>start_row\<close> is
  negative. The code at this input: the only placement covers the row -10 alone
  (\<^verbatim>\<open>start_row\<close> -10, one row); the delete with \<^verbatim>\<open>y_offset\<close> 1 asks for row 0, which
  the placement does not contain, and the placement is removed.
\<close>

theorem C8_row_delete_removes_other_rows:
  "map (\<lambda>r. sint (ref_start_row r)) (concat (map img_refs (gm_images world_scrolled_up))) = [- 10]
   \<and> map ref_effective_num_rows (concat (map img_refs (gm_images world_scrolled_up))) = [1]
   \<and> map img_refs (gm_images (run world_scrolled_up
        (zero_GraphicsCommand\<lparr>g_action := CHR ''d'', g_delete_action := CHR ''y'',
           g_y_offset := 1\<rparr>))) = [[]]"
proof (intro conjI)
  show "map (\<lambda>r. sint (ref_start_row r))
          (concat (map img_refs (gm_images world_scrolled_up))) = [- 10]"
    by code_simp
  show "map ref_effective_num_rows (concat (map img_refs (gm_images world_scrolled_up))) = [1]"
    by code_simp
  show "map img_refs (gm_images (run world_scrolled_up
          (zero_GraphicsCommand\<lparr>g_action := CHR ''d'', g_delete_action := CHR ''y'',
             g_y_offset := 1\<rparr>))) = [[]]"
    by code_simp
qed

subsection \<open>C9: a put on an image that is not loaded\<close>

lemma img_by_client_id_from_found:
  "img_by_client_id_from xs k ident = Some i
   \<Longrightarrow> k \<le> i \<and> i < k + length xs \<and> img_client_id (xs ! (i - k)) = ident"
proof (induction xs arbitrary: k)
  case Nil
  then show ?case by simp
next
  case (Cons x xs)
  show ?case
  proof (cases "img_client_id x = ident")
    case True
    with Cons.prems show ?thesis by simp
  next
    case False
    with Cons.prems have "img_by_client_id_from xs (Suc k) ident = Some i" by simp
    from Cons.IH[OF this] show ?thesis by (auto simp: nth_Cons')
  qed
qed

lemma unloaded_msg_nonempty: "unloaded_msg g \<noteq> []"
  by (simp add: unloaded_msg_def)

text \<open>
  C9. A put command (one identity given) that resolves to an image whose
  \<^verbatim>\<open>data_loaded\<close> is false changes nothing but the response buffer, which holds the
  \<^verbatim>\<open>ENOENT\<close> failure: no placement is appended, no image changes and the cursor stays.
  The response is returned unless the quiet level is 2 or more.
\<close>

theorem C9_put_unloaded:
  assumes act: "g_action g = CHR ''p''"
    and one: "\<not> (g_id g \<noteq> 0 \<and> g_image_number g \<noteq> 0)"
    and tgt: "put_target self g = Some i"
    and unl: "\<not> img_data_loaded (gm_images self ! i)"
  shows "snd (grman_handle_command env self g cell) = self\<lparr>command_response := unloaded_msg g\<rparr>
    \<and> fst (grman_handle_command env self g cell) =
           (if g_quiet g > 1 then None
            else Some (''G''
              @ (if img_client_id (gm_images self ! i) \<noteq> 0
                 then ''i='' @ dec (uint (img_client_id (gm_images self ! i))) else [])
              @ (if g_image_number g \<noteq> 0 then '',I='' @ dec (uint (g_image_number g)) else [])
              @ (if g_placement_id g \<noteq> 0 then '',p='' @ dec (uint (g_placement_id g)) else [])
              @ '';'' @ unloaded_msg g))"
proof -
  let ?s = "self\<lparr>command_response := []\<rparr>"
  have "put_target ?s g = put_target self g"
    by (simp add: put_target_def img_by_client_id_def img_by_client_number_def)
  with tgt have tgt': "put_target ?s g = Some i" by simp
  have some: "g_id g \<noteq> 0 \<or> g_image_number g \<noteq> 0"
    using tgt by (auto simp: put_target_def split: if_splits)
  have put: "handle_put_command env ?s g None cell =
      (img_client_id (gm_images self ! i), self\<lparr>command_response := unloaded_msg g\<rparr>)"
    using tgt' unl
    by (simp add: handle_put_command_def put_target_def set_command_failed_response_def
        unloaded_msg_def)
  have ident: "img_client_id (gm_images self ! i) \<noteq> 0 \<or> g_image_number g \<noteq> 0"
  proof (cases "g_id g = 0")
    case True
    with some show ?thesis by simp
  next
    case False
    with tgt have "img_by_client_id_from (gm_images self) 0 (g_id g) = Some i"
      by (simp add: put_target_def img_by_client_id_def)
    from img_by_client_id_from_found[OF this] False show ?thesis by simp
  qed
  have q: "g_quiet g \<noteq> 0 \<and> 1 < g_quiet g \<longleftrightarrow> 1 < g_quiet g"
    by (auto simp: word_less_nat_alt)
  have s: "snd (grman_handle_command env self g cell) = self\<lparr>command_response := unloaded_msg g\<rparr>"
    using act one some put unloaded_msg_nonempty[of g]
    by (auto simp: grman_handle_command_def is_add_action_def finish_command_response_def Let_def)
  have f: "fst (grman_handle_command env self g cell) =
           (if g_quiet g > 1 then None
            else Some (''G''
              @ (if img_client_id (gm_images self ! i) \<noteq> 0
                 then ''i='' @ dec (uint (img_client_id (gm_images self ! i))) else [])
              @ (if g_image_number g \<noteq> 0 then '',I='' @ dec (uint (g_image_number g)) else [])
              @ (if g_placement_id g \<noteq> 0 then '',p='' @ dec (uint (g_placement_id g)) else [])
              @ '';'' @ unloaded_msg g))"
    using act one some put unloaded_msg_nonempty[of g] ident q
    by (auto simp: grman_handle_command_def is_add_action_def finish_command_response_def Let_def)
  from s f show ?thesis by simp
qed

theorem C9_put_unloaded_witness:
  "snd (grman_handle_command env_ok world_loading (put_cmd 5) cell_10x20) =
     world_loading\<lparr>command_response :=
       ''ENOENT:Put command refers to image with id: 5 that could not load its data''\<rparr>
   \<and> fst (grman_handle_command env_ok world_loading (put_cmd 5) cell_10x20) =
       Some ''Gi=5;ENOENT:Put command refers to image with id: 5 that could not load its data''"
proof -
  have a: "g_action (put_cmd 5) = CHR ''p''" by code_simp
  have b: "\<not> (g_id (put_cmd 5) \<noteq> 0 \<and> g_image_number (put_cmd 5) \<noteq> 0)" by code_simp
  have c: "put_target world_loading (put_cmd 5) = Some 0" by code_simp
  have d: "\<not> img_data_loaded (gm_images world_loading ! 0)" by code_simp
  have m: "unloaded_msg (put_cmd 5) =
      ''ENOENT:Put command refers to image with id: 5 that could not load its data''"
    by code_simp
  have e: "img_client_id (gm_images world_loading ! 0) = 5" by code_simp
  have n: "dec 5 = ''5''" by code_simp
  have k: "g_image_number (put_cmd 5) = 0" "g_placement_id (put_cmd 5) = 0" "g_quiet (put_cmd 5) = 0"
    by (simp_all add: put_cmd_def zero_GraphicsCommand_def)
  from C9_put_unloaded[OF a b c d, of env_ok cell_10x20] show ?thesis
    by (simp add: m e n k)
qed

subsection \<open>C2: the source rectangle of a placement\<close>









lemma ref_clamped_refs_upd [simp]:
  "ref_clamped (img\<lparr>img_refs := rs\<rparr>) = ref_clamped img"
  "ref_clamped (img\<lparr>img_refs := rs, img_atime := t\<rparr>) = ref_clamped img"
  by (simp_all add: ref_clamped_def fun_eq_iff)




lemma length_remove_i: "i < length xs \<Longrightarrow> Suc (length (remove_i_from_array xs i)) = length xs"
  by (simp add: remove_i_from_array_def)













lemma placements_clamped_frame [simp]:
  "placements_clamped (self\<lparr>is_dirty := a\<rparr>) = placements_clamped self"
  "placements_clamped (self\<lparr>gm_render_data := b\<rparr>) = placements_clamped self"
  "placements_clamped (self\<lparr>command_response := c\<rparr>) = placements_clamped self"
  by (simp_all add: placements_clamped_def)



lemma ref_clamped_inside:
  "ref_clamped img ref \<Longrightarrow> ref_src_x ref \<le> img_width img \<Longrightarrow> ref_src_y ref \<le> img_height img
   \<Longrightarrow> ref_inside img ref"
  by (auto simp: ref_clamped_def ref_inside_def src_fits_def word_le_def word_less_def
      split: if_splits)


lemma world_put_beyond_placement:
  "map img_width (gm_images world_put_beyond) = [1]"
  "map (\<lambda>img. map ref_src_x (img_refs img)) (gm_images world_put_beyond) = [[20]]"
  "map (\<lambda>img. map ref_src_width (img_refs img)) (gm_images world_put_beyond) = [[0]]"
  by code_simp+



subsection \<open>C5: growth of the buffer of a direct transmission\<close>







subsection \<open>C3: the response\<close>

text \<open>
  C3, the claim as stated, fails: a delete command at quiet level 0 that names the
  image 5 gets no response.
\<close>

theorem C3_delete_no_response_counterexample:
  "fst (grman_handle_command env_ok world_two_refs (delete_cmd CHR ''i'' 5) cell_10x20) = None
   \<and> g_quiet (delete_cmd CHR ''i'' 5) = 0
   \<and> g_id (delete_cmd CHR ''i'' 5) = 5"
proof (intro conjI)
  show "fst (grman_handle_command env_ok world_two_refs (delete_cmd CHR ''i'' 5) cell_10x20) = None"
    by code_simp
  show "g_quiet (delete_cmd CHR ''i'' 5) = 0" by code_simp
  show "g_id (delete_cmd CHR ''i'' 5) = 5" by code_simp
qed

lemma finish_command_response_reply:
  "fst (finish_command_response g data_loaded iid placement_id image_number self)
   = command_reply (g_quiet g) data_loaded iid placement_id image_number (command_response self)"
  by (auto simp: finish_command_response_def command_reply_def silenced_def response_text_def
      Let_def)

lemma command_reply_partial_chunk: "command_reply quiet False iid placement_id image_number [] = None"
  by (simp add: command_reply_def)

text \<open>
  C3, amended. Only an add, a query, a put and the conflict of id and number are
  answered; a delete and an unknown action never are. The answer is a string exactly
  when the command is not silenced, the identity the answer reports is not all zero
  (for an add the id and the number of the saved first command, with the id the image
  was given; for a query the id of the command; for a put the client id of the image
  and the number of the command), and the outcome is a failure or the data is loaded.
  So a successful chunk of an unfinished transmission, where no image is returned and
  no failure is set, is not answered.
\<close>

theorem C3_response:
  assumes "cell_width cell \<noteq> 0" and "cell_height cell \<noteq> 0"
  shows "fst (grman_handle_command env self g cell) =
     (let s0 = self\<lparr>command_response := []\<rparr> in
      if g_id g \<noteq> 0 \<and> g_image_number g \<noteq> 0 then
        command_reply (g_quiet g) False (g_id g) (g_placement_id g) (g_image_number g)
          ''EINVAL:Must not specify both image id and image number''
      else if is_add_action (g_action g) then
        (if g_action g = CHR ''q'' then
           (if g_id g = 0 then None
            else command_reply (g_quiet g) (snd (handle_add_command env s0 g 0) \<noteq> None)
                   (g_id g) 0 0 (command_response (fst (handle_add_command env s0 g 0))))
         else
           (let s1 = fst (handle_add_command env s0 g (g_id g));
                lic = gm_last_init_graphics_command s1
            in command_reply (g_quiet g) (snd (handle_add_command env s0 g (g_id g)) \<noteq> None)
                 (g_id lic) (g_placement_id lic) (g_image_number lic) (command_response s1)))
      else if g_action g = CHR ''p'' then
        (if g_id g = 0 \<and> g_image_number g = 0 then None
         else command_reply (g_quiet g) True (fst (handle_put_command env s0 g None cell))
                (g_placement_id g) (g_image_number g)
                (command_response (snd (handle_put_command env s0 g None cell))))
      else None)"
proof -
  let ?s0 = "self\<lparr>command_response := []\<rparr>"
  have add: "fst (grman_handle_add env ?s0 g cell) =
      (if g_action g = CHR ''q'' then
         (if g_id g = 0 then None
          else command_reply (g_quiet g) (snd (handle_add_command env ?s0 g 0) \<noteq> None)
                 (g_id g) 0 0 (command_response (fst (handle_add_command env ?s0 g 0))))
       else
         command_reply (g_quiet g) (snd (handle_add_command env ?s0 g (g_id g)) \<noteq> None)
           (g_id (gm_last_init_graphics_command (fst (handle_add_command env ?s0 g (g_id g)))))
           (g_placement_id (gm_last_init_graphics_command (fst (handle_add_command env ?s0 g (g_id g)))))
           (g_image_number (gm_last_init_graphics_command (fst (handle_add_command env ?s0 g (g_id g)))))
           (command_response (fst (handle_add_command env ?s0 g (g_id g)))))"
    by (simp add: grman_handle_add_def grman_add_then_put_def Let_def case_prod_beta
        finish_command_response_reply[symmetric])
  show ?thesis
    unfolding grman_handle_command_def Let_def
    by (simp add: add case_prod_beta finish_command_response_reply
        set_command_failed_response_def)
qed

theorem C3_response_witness:
  "fst (grman_handle_command env_ok grman_alloc
         ((pixel_cmd CHR ''t'' 5)\<lparr>g_more := 1, g_payload_sz := 2\<rparr>) cell_10x20) = None
   \<and> fst (grman_handle_command env_ok world_loading (chunk_cmd 2) cell_10x20) = Some ''Gi=5;OK''
   \<and> fst (grman_handle_command env_ok world_loading ((chunk_cmd 2)\<lparr>g_quiet := 1\<rparr>) cell_10x20) = None
   \<and> fst (grman_handle_command env_ok world_loading ((chunk_cmd 1)\<lparr>g_quiet := 1\<rparr>) cell_10x20)
       = Some ''Gi=5;ENODATA:Insufficient image data: 3 < 4''
   \<and> fst (grman_handle_command env_ok world_loading ((chunk_cmd 1)\<lparr>g_quiet := 2\<rparr>) cell_10x20) = None
   \<and> fst (grman_handle_command env_ok grman_alloc
         ((put_cmd 0)\<lparr>g_image_number := 7, g_placement_id := 3\<rparr>) cell_10x20)
       = Some ''G,I=7,p=3;ENOENT:Put command refers to non-existent image with id: 0 and number: 7''
   \<and> fst (grman_handle_command env_ok grman_alloc (pixel_cmd CHR ''t'' 0) cell_10x20) = None"
proof -
  have eq: "fst (grman_handle_command env_ok grman_alloc
         ((pixel_cmd CHR ''t'' 5)\<lparr>g_more := 1, g_payload_sz := 2\<rparr>) cell_10x20)
     = command_reply 0 False 5 0 0 []"
  proof -
    let ?g = "(pixel_cmd CHR ''t'' 5)\<lparr>g_more := 1, g_payload_sz := 2\<rparr>"
    let ?s0 = "grman_alloc\<lparr>command_response := []\<rparr>"
    have a: "g_id ?g = 5" "g_image_number ?g = 0" "g_action ?g = CHR ''t''" "g_quiet ?g = 0"
      by (simp_all add: pixel_cmd_def zero_GraphicsCommand_def)
    have b: "snd (handle_add_command env_ok ?s0 ?g 5) = None"
      "command_response (fst (handle_add_command env_ok ?s0 ?g 5)) = []"
      "g_id (gm_last_init_graphics_command (fst (handle_add_command env_ok ?s0 ?g 5))) = 5"
      "g_placement_id (gm_last_init_graphics_command (fst (handle_add_command env_ok ?s0 ?g 5))) = 0"
      "g_image_number (gm_last_init_graphics_command (fst (handle_add_command env_ok ?s0 ?g 5))) = 0"
      by code_simp+
    have c: "cell_width cell_10x20 \<noteq> 0" "cell_height cell_10x20 \<noteq> 0"
      by (simp_all add: cell_10x20_def)
    show ?thesis
      using C3_response[OF c, where env=env_ok and self=grman_alloc and g="?g"]
      by (simp add: a b is_add_action_def Let_def)
  qed
  have first: "fst (grman_handle_command env_ok grman_alloc
         ((pixel_cmd CHR ''t'' 5)\<lparr>g_more := 1, g_payload_sz := 2\<rparr>) cell_10x20) = None"
    unfolding eq by (rule command_reply_partial_chunk)
  have rest:
    "fst (grman_handle_command env_ok world_loading (chunk_cmd 2) cell_10x20) = Some ''Gi=5;OK''"
    "fst (grman_handle_command env_ok world_loading ((chunk_cmd 2)\<lparr>g_quiet := 1\<rparr>) cell_10x20) = None"
    "fst (grman_handle_command env_ok world_loading ((chunk_cmd 1)\<lparr>g_quiet := 1\<rparr>) cell_10x20)
       = Some ''Gi=5;ENODATA:Insufficient image data: 3 < 4''"
    "fst (grman_handle_command env_ok world_loading ((chunk_cmd 1)\<lparr>g_quiet := 2\<rparr>) cell_10x20) = None"
    "fst (grman_handle_command env_ok grman_alloc
         ((put_cmd 0)\<lparr>g_image_number := 7, g_placement_id := 3\<rparr>) cell_10x20)
       = Some ''G,I=7,p=3;ENOENT:Put command refers to non-existent image with id: 0 and number: 7''"
    "fst (grman_handle_command env_ok grman_alloc (pixel_cmd CHR ''t'' 0) cell_10x20) = None"
    by code_simp+
  from first rest show ?thesis by simp
qed

subsection \<open>C1: the storage quota\<close>




text \<open>When the loop of the quota ends, the quota is met or no image is left.\<close>

lemma quota_loop_done:
  "gm_used_storage (quota_loop limit self) \<le> limit \<or> gm_images (quota_loop limit self) = []"
proof (induction limit self rule: quota_loop.induct)
  case (1 limit self)
  show ?case
  proof (cases "gm_used_storage self > limit \<and> length (gm_images self) > 0")
    case True
    with 1 show ?thesis by (subst (1 2) quota_loop.simps) simp
  next
    case False
    then show ?thesis by (subst (1 2) quota_loop.simps) auto
  qed
qed

lemma apply_storage_quota_bound:
  "gm_used_storage (apply_storage_quota self limit added) \<le> limit"
proof -
  let ?s1 = "remove_images self trim_predicate added"
  let ?s2 = "?s1\<lparr>gm_images := qsort oldest_last (gm_images ?s1)\<rparr>"
  show ?thesis
  proof (cases "gm_used_storage ?s1 < limit")
    case True
    then show ?thesis by (simp add: apply_storage_quota_def Let_def)
  next
    case False
    from quota_loop_done[of limit ?s2] False show ?thesis
      by (auto simp: apply_storage_quota_def Let_def)
  qed
qed

lemma quota_checked_bound:
  "gm_used_storage (if gm_used_storage s > limit then apply_storage_quota s limit added else s)
   \<le> limit"
  by (simp add: apply_storage_quota_bound not_less)









lemma sum_remove_i:
  assumes "i < length xs"
  shows "sum_list (map f (remove_i_from_array xs i)) = (sum_list (map f xs) :: int) - f (xs ! i)"
proof -
  have "xs = take i xs @ xs ! i # drop (Suc i) xs"
    using assms by (simp add: id_take_nth_drop)
  then have "sum_list (map f xs)
      = sum_list (map f (take i xs)) + f (xs ! i) + sum_list (map f (drop (Suc i) xs))"
    by (metis add.assoc list.simps(9) map_append sum_list.Cons sum_list.append)
  then show ?thesis by (simp add: remove_i_from_array_def)
qed

lemma nth_le_sum:
  assumes "i < length xs" and "\<And>x. 0 \<le> f x"
  shows "f (xs ! i) \<le> (sum_list (map f xs) :: int)"
proof -
  have "0 \<le> sum_list (map f (remove_i_from_array xs i))"
    by (rule sum_list_nonneg) (auto simp: assms(2))
  with sum_remove_i[OF assms(1), of f] show ?thesis by simp
qed








subsection \<open>C10: adds without the GPU\<close>

lemma tracked_upd_image:
  "tracked U i s \<Longrightarrow> img_used_storage (f (gm_images s ! i)) = 0 \<Longrightarrow> tracked U i (upd_image i f s)"
  by (simp add: tracked_def upd_image_def)

lemma tracked_upd_load_data: "tracked U i s \<Longrightarrow> tracked U i (upd_load_data i f s)"
  by (simp add: upd_load_data_def tracked_def upd_image_def)

lemma tracked_frame [simp]:
  "tracked U i (s\<lparr>gm_loading_image := a\<rparr>) = tracked U i s"
  "tracked U i (s\<lparr>gm_last_init_graphics_command := b\<rparr>) = tracked U i s"
  "tracked U i (s\<lparr>command_response := c\<rparr>) = tracked U i s"
  "tracked U i (s\<lparr>gm_layers_dirty := d, is_dirty := e\<rparr>) = tracked U i s"
  by (simp_all add: tracked_def)

lemma remove_image_covered:
  assumes "storage_covered self" and "i < length (gm_images self)"
  shows "storage_covered (remove_image self i)
    \<and> uint (gm_used_storage (remove_image self i)) \<le> uint (gm_used_storage self)"
proof -
  let ?f = "\<lambda>img. uint (img_used_storage img)"
  have "?f (gm_images self ! i) \<le> sum_list (map ?f (gm_images self))"
    using assms(2) by (intro nth_le_sum) simp_all
  with assms(1) have le: "?f (gm_images self ! i) \<le> uint (gm_used_storage self)"
    by (simp add: storage_covered_def)
  then have sub: "uint (gm_used_storage self - img_used_storage (gm_images self ! i))
      = uint (gm_used_storage self) - ?f (gm_images self ! i)"
    by (simp add: uint_sub_if')
  have "0 \<le> ?f (gm_images self ! i)" by simp
  with assms(1) sub sum_remove_i[OF assms(2), of ?f] show ?thesis
    by (simp add: storage_covered_def remove_image_def)
qed

lemma remove_images_below_covered:
  "i \<le> length (gm_images self) \<Longrightarrow> storage_covered self
   \<Longrightarrow> storage_covered (remove_images_below p skip i self)
       \<and> uint (gm_used_storage (remove_images_below p skip i self)) \<le> uint (gm_used_storage self)
       \<and> send_to_gpu (remove_images_below p skip i self) = send_to_gpu self"
proof (induction i arbitrary: self)
  case 0
  then show ?case by simp
next
  case (Suc i)
  from Suc.prems have il: "i < length (gm_images self)" by simp
  let ?s = "if img_internal_id (gm_images self ! i) \<noteq> skip \<and> p (gm_images self ! i)
            then remove_image self i else self"
  from remove_image_covered[OF Suc.prems(2) il] Suc.prems(2)
  have c: "storage_covered ?s" and u: "uint (gm_used_storage ?s) \<le> uint (gm_used_storage self)"
    and g: "send_to_gpu ?s = send_to_gpu self"
    by (auto simp: remove_image_def)
  have "i \<le> length (gm_images ?s)"
    using il length_remove_i[of i "gm_images self"] by (auto simp: remove_image_def)
  from Suc.IH[OF this c] u g show ?case by (simp add: Let_def)
qed

lemma remove_images_covered:
  assumes "storage_covered self"
  shows "uint (gm_used_storage (remove_images self p skip)) \<le> uint (gm_used_storage self)"
    and "send_to_gpu (remove_images self p skip) = send_to_gpu self"
  using remove_images_below_covered[OF order_refl assms, of p skip]
  by (simp_all add: remove_images_def)

lemma img_by_internal_id_from_found:
  "img_by_internal_id_from xs k ident = Some i \<Longrightarrow> k \<le> i \<and> i < k + length xs"
proof (induction xs arbitrary: k)
  case Nil
  then show ?case by simp
next
  case (Cons x xs)
  show ?case
  proof (cases "img_internal_id x = ident")
    case True
    with Cons.prems show ?thesis by simp
  next
    case False
    with Cons.prems have "img_by_internal_id_from xs (Suc k) ident = Some i" by simp
    from Cons.IH[OF this] show ?thesis by simp
  qed
qed

lemma find_or_create_image_bound:
  assumes "find_or_create_image self ident = (existing, i, s)"
  shows "i < length (gm_images s) \<and> gm_used_storage s = gm_used_storage self
    \<and> send_to_gpu s = send_to_gpu self"
proof (cases "if ident \<noteq> 0 then img_by_client_id self ident else None")
  case None
  with assms show ?thesis by (auto simp: find_or_create_image_def)
next
  case (Some j)
  then have "img_by_client_id_from (gm_images self) 0 ident = Some j"
    by (simp add: img_by_client_id_def split: if_splits)
  from img_by_client_id_from_found[OF this] have "j < length (gm_images self)" by simp
  with assms Some show ?thesis by (auto simp: find_or_create_image_def)
qed

lemma framed_upd_image [simp]: "framed U i (upd_image k f s) = framed U i s"
  by (simp add: framed_def upd_image_def)

lemma framed_frame [simp]:
  "framed U i (s\<lparr>gm_layers_dirty := d, is_dirty := e\<rparr>) = framed U i s"
  "framed U i (s\<lparr>internal_id_counter := c\<rparr>) = framed U i s"
  "framed U i (s\<lparr>gm_last_init_graphics_command := b\<rparr>) = framed U i s"
  by (simp_all add: framed_def)

lemma framed_tracked:
  "framed U i s \<Longrightarrow> img_used_storage (f (gm_images s ! i)) = 0 \<Longrightarrow> tracked U i (upd_image i f s)"
  by (simp add: framed_def tracked_def upd_image_def)

lemma add_init_image_tracked:
  assumes "add_init_image env g iid self = (s1, i)" and "\<not> send_to_gpu self"
    and "storage_covered self"
  shows "tracked (uint (gm_used_storage self)) i s1"
proof -
  let ?U = "uint (gm_used_storage self)"
  let ?r = "remove_images self add_trim_predicate 0"
  obtain existing j s2 where f: "find_or_create_image ?r iid = (existing, j, s2)"
    by (cases "find_or_create_image ?r iid") auto
  from find_or_create_image_bound[OF f] remove_images_covered[OF assms(3), of add_trim_predicate 0]
    assms(2)
  have t2: "framed ?U j s2" by (simp add: framed_def)
  let ?s3 = "if existing then
                  (upd_image j (\<lambda>img. img\<lparr>img_load_data := free_load_data (img_load_data img),
                     img_data_loaded := False, img_refs := []\<rparr>) s2)
                  \<lparr>gm_layers_dirty := True, is_dirty := True\<rparr>
                else
                  let s2a = upd_image j (\<lambda>img. img\<lparr>img_internal_id := internal_id_counter s2,
                              img_client_id := iid, img_client_number := g_image_number g\<rparr>)
                              (s2\<lparr>internal_id_counter := internal_id_counter s2 + 1\<rparr>)
                  in if iid = 0 \<and> g_image_number g \<noteq> 0 then
                       let free_id = get_free_client_id s2a in
                       (upd_image j (\<lambda>img. img\<lparr>img_client_id := free_id\<rparr>) s2a)
                       \<lparr>gm_last_init_graphics_command :=
                          (gm_last_init_graphics_command s2a)\<lparr>g_id := free_id\<rparr>\<rparr>
                     else s2a"
  have t3: "framed ?U j ?s3" using t2 by (simp add: Let_def)
  have "(s1, i) = (upd_image j (\<lambda>img. img\<lparr>img_atime := e_monotonic_add env,
            img_used_storage := 0, img_width := g_data_width g,
            img_height := g_data_height g\<rparr>) ?s3, j)"
    using assms(1) unfolding add_init_image_def f Let_def by (simp only: prod.case)
  then have "i = j" and "s1 = upd_image j (\<lambda>img. img\<lparr>img_atime := e_monotonic_add env,
            img_used_storage := 0, img_width := g_data_width g,
            img_height := g_data_height g\<rparr>) ?s3"
    by simp_all
  with framed_tracked[OF t3] show ?thesis by simp
qed

lemma add_init_format_tracked:
  "add_init_format g fmt i s = Inr s' \<Longrightarrow> tracked U i s \<Longrightarrow> tracked U i s'"
  by (auto simp: add_init_format_def Let_def tracked_upd_load_data split: if_splits)

lemma add_init_buffer_tracked:
  "add_init_buffer env g i s = Inr s' \<Longrightarrow> tracked U i s
   \<Longrightarrow> tracked U i s' \<and> ld_buf (img_load_data (gm_images s' ! i))"
  by (auto simp: add_init_buffer_def Let_def tracked_def upd_load_data_def upd_image_def
      split: if_splits)

lemma handle_add_init_tracked:
  assumes "handle_add_init env g iid self = Inr (s1, i)" and "\<not> send_to_gpu self"
    and "storage_covered self"
  shows "tracked (uint (gm_used_storage self)) i s1"
    and "tt_of g = CHR ''d'' \<Longrightarrow> ld_buf (img_load_data (gm_images s1 ! i))"
proof -
  let ?s0 = "self\<lparr>gm_last_init_graphics_command := g\<lparr>g_id := iid\<rparr>, gm_loading_image := 0\<rparr>"
  let ?U = "uint (gm_used_storage self)"
  obtain sa j where a: "add_init_image env g iid ?s0 = (sa, j)"
    by (cases "add_init_image env g iid ?s0") auto
  have "storage_covered ?s0" "\<not> send_to_gpu ?s0"
    using assms(2,3) by (simp_all add: storage_covered_def)
  from add_init_image_tracked[OF a this(2,1)] have ta: "tracked ?U j sa" by simp
  from assms(1) a obtain sb where b: "add_init_format g (fmt_of g) j sa = Inr sb"
    by (auto simp: handle_add_init_def Let_def split: if_splits sum.splits)
  from add_init_format_tracked[OF b ta] have tb: "tracked ?U j sb" .
  show "tracked ?U i s1"
    using assms(1) a b tb add_init_buffer_tracked[of env g j sb _ ?U]
    by (auto simp: handle_add_init_def Let_def split: if_splits sum.splits)
  show "ld_buf (img_load_data (gm_images s1 ! i))" if "tt_of g = CHR ''d''"
    using assms(1) a b tb that add_init_buffer_tracked[of env g j sb _ ?U]
    by (auto simp: handle_add_init_def Let_def split: if_splits sum.splits)
qed

lemma handle_add_continue_tracked:
  assumes "handle_add_continue g self = Inr (s1, i)" and "\<not> send_to_gpu self"
    and "loading_image_ready self"
  shows "tracked (uint (gm_used_storage self)) i s1 \<and> ld_buf (img_load_data (gm_images s1 ! i))"
proof -
  from assms(1) have f: "img_by_internal_id self (gm_loading_image self) = Some i"
    and s1: "s1 = self\<lparr>gm_last_init_graphics_command :=
                 (gm_last_init_graphics_command self)\<lparr>g_more := g_more g,
                    g_payload_sz := g_payload_sz g\<rparr>\<rparr>"
    by (auto simp: handle_add_continue_def Let_def img_by_internal_id_def split: option.splits)
  from f have "img_by_internal_id_from (gm_images self) 0 (gm_loading_image self) = Some i"
    by (simp add: img_by_internal_id_def)
  from img_by_internal_id_from_found[OF this] have "i < length (gm_images self)" by simp
  with assms(2,3) f show ?thesis
    unfolding s1 by (simp add: tracked_def loading_image_ready_def)
qed

lemma add_direct_copy_tracked:
  "tracked U i s \<Longrightarrow> tracked U i (add_direct_copy g i s)
    \<and> ld_buf (img_load_data (gm_images (add_direct_copy g i s) ! i))
        = ld_buf (img_load_data (gm_images s ! i))"
  by (simp add: add_direct_copy_def Let_def tracked_def upd_load_data_def upd_image_def)

lemma add_direct_tracked:
  assumes "add_direct env g fmt i s = Inr s'" and "tracked U i s"
    and "ld_buf (img_load_data (gm_images s ! i))"
  shows "tracked U i s' \<and> ld_buf (img_load_data (gm_images s' ! i))"
proof -
  let ?s1 = "upd_load_data i (\<lambda>ld. ld\<lparr>ld_buf_capacity := min (2 * ld_buf_capacity ld) MAX_DATA_SZ,
               ld_buf := e_realloc_ok env\<rparr>) s"
  have t1: "tracked U i ?s1" using assms(2) by (rule tracked_upd_load_data)
  have b1: "ld_buf (img_load_data (gm_images ?s1 ! i)) = e_realloc_ok env"
    using assms(2) by (simp add: tracked_def upd_load_data_def upd_image_def)
  from assms(1) have "s' = add_direct_copy g i s \<or> (e_realloc_ok env \<and> s' = add_direct_copy g i ?s1)"
    by (auto simp: add_direct_def Let_def split: if_splits)
  with add_direct_copy_tracked[OF assms(2), of g] add_direct_copy_tracked[OF t1, of g] assms(3) b1
  show ?thesis by auto
qed

lemma add_file_tracked:
  assumes "add_file env g i s = Inr s'" and "tracked U i s"
    and "img_data_loaded (gm_images s' ! i)"
  shows "tracked U i s' \<and> ld_mapped_file (img_load_data (gm_images s' ! i))"
  using assms
  by (auto simp: add_file_def mmap_img_file_def Let_def tracked_def upd_load_data_def
      upd_image_def set_command_failed_response_def split: if_splits)

lemma add_transmit_tracked:
  assumes "add_transmit env g tt fmt i s = Inr s'" and "tracked U i s"
    and "img_data_loaded (gm_images s' ! i)"
    and "tt = CHR ''d'' \<Longrightarrow> ld_buf (img_load_data (gm_images s ! i))"
  shows "tracked U i s'"
    and "if tt = CHR ''d'' then ld_buf (img_load_data (gm_images s' ! i))
         else ld_mapped_file (img_load_data (gm_images s' ! i))"
proof -
  show "tracked U i s'"
    using assms add_direct_tracked[of env g fmt i s s' U] add_file_tracked[of env g i s s' U]
    by (auto simp: add_transmit_def split: if_splits)
  show "if tt = CHR ''d'' then ld_buf (img_load_data (gm_images s' ! i))
         else ld_mapped_file (img_load_data (gm_images s' ! i))"
    using assms add_direct_tracked[of env g fmt i s s' U] add_file_tracked[of env g i s s' U]
    by (auto simp: add_transmit_def split: if_splits)
qed

lemma add_switch_compressed_tracked:
  assumes "add_switch_compressed env g i s = Inr s'" and "tracked U i s"
    and "img_data_loaded (gm_images s ! i)"
  shows "tracked U i s' \<and> img_data_loaded (gm_images s' ! i)
    \<and> (if g_compressed g = CHR 0x00 then s' = s else ld_buf (img_load_data (gm_images s' ! i)))"
  using assms
  by (auto simp: add_switch_compressed_def inflate_zlib_def Let_def tracked_def upd_load_data_def
      upd_image_def free_load_data_def split: if_splits zlib_result.splits)

lemma add_switch_fmt_tracked:
  assumes "add_switch_fmt env fmt i s = Inr s'" and "tracked U i s"
    and "img_data_loaded (gm_images s ! i)"
  shows "tracked U i s' \<and> img_data_loaded (gm_images s' ! i)
    \<and> (if fmt = 100 then ld_buf (img_load_data (gm_images s' ! i)) else s' = s)"
  using assms
  by (auto simp: add_switch_fmt_def inflate_png_def Let_def tracked_def upd_load_data_def
      upd_image_def free_load_data_def split: if_splits png_result.splits)

lemma add_processed_data_tracked:
  assumes "add_processed_data i s = Inr s'" and "tracked U i s"
    and "img_data_loaded (gm_images s ! i)" and "ld_buf (img_load_data (gm_images s ! i))"
  shows "tracked U i s' \<and> bitmap_retained (img_load_data (gm_images s' ! i))
    \<and> img_data_loaded (gm_images s' ! i)"
  using assms
  by (auto simp: add_processed_data_def Let_def tracked_def upd_load_data_def upd_image_def
      bitmap_retained_def split: if_splits)

lemma add_process_tracked:
  assumes "add_process env g fmt i s = Inr s'" and "tracked U i s"
    and "g_compressed g \<noteq> CHR 0x00 \<or> fmt = 100"
    and "img_data_loaded (gm_images s ! i)"
  shows "tracked U i s' \<and> bitmap_retained (img_load_data (gm_images s' ! i))
    \<and> img_data_loaded (gm_images s' ! i)"
proof -
  from assms(1) obtain s1 s2 where z: "add_switch_compressed env g i s = Inr s1"
    and p: "add_switch_fmt env fmt i s1 = Inr s2"
    and d: "add_processed_data i s2 = Inr s'"
    by (auto simp: add_process_def split: sum.splits)
  from add_switch_compressed_tracked[OF z assms(2,4)]
  have t1: "tracked U i s1" "img_data_loaded (gm_images s1 ! i)"
    and b1: "g_compressed g \<noteq> CHR 0x00 \<Longrightarrow> ld_buf (img_load_data (gm_images s1 ! i))"
    by (simp_all split: if_splits)
  from add_switch_fmt_tracked[OF p t1]
  have t2: "tracked U i s2" "img_data_loaded (gm_images s2 ! i)"
    and b2: "if fmt = 100 then ld_buf (img_load_data (gm_images s2 ! i)) else s2 = s1"
    by simp_all
  have "ld_buf (img_load_data (gm_images s2 ! i))"
  proof (cases "fmt = 100")
    case True
    with b2 show ?thesis by simp
  next
    case False
    with b2 assms(3) b1 show ?thesis by simp
  qed
  from add_processed_data_tracked[OF d t2 this] show ?thesis .
qed

lemma add_unprocessed_tracked:
  assumes "add_unprocessed tt i s = Inr s'" and "tracked U i s"
    and "if tt = CHR ''d'' then ld_buf (img_load_data (gm_images s ! i))
         else ld_mapped_file (img_load_data (gm_images s ! i))"
    and "img_data_loaded (gm_images s ! i)"
  shows "tracked U i s' \<and> bitmap_retained (img_load_data (gm_images s' ! i))
    \<and> img_data_loaded (gm_images s' ! i)"
  using assms
  by (auto simp: add_unprocessed_def Let_def tracked_def upd_load_data_def upd_image_def
      bitmap_retained_def split: if_splits)

lemma add_upload_no_gpu: "add_upload env i s = Inr s' \<Longrightarrow> \<not> send_to_gpu s \<Longrightarrow> s' = s"
  by (auto simp: add_upload_def Let_def split: if_splits)

lemma handle_add_command_SomeE:
  assumes "handle_add_command env self g0 iid = (s', Some i)"
  obtains s1 s2 s4 g where
    "(if \<not> (tt_of g0 = CHR ''d'' \<and> gm_loading_image self \<noteq> 0)
      then handle_add_init env g0 iid self else handle_add_continue g0 self) = Inr (s1, i)"
    and "g = (if \<not> (tt_of g0 = CHR ''d'' \<and> gm_loading_image self \<noteq> 0)
              then g0 else gm_last_init_graphics_command s1)"
    and "add_transmit env g (tt_of g) (fmt_of g) i s1 = Inr s2"
    and "img_data_loaded (gm_images s2 ! i)"
    and "(if g_compressed g \<noteq> CHR 0x00 \<or> fmt_of g = 100
          then add_process env g (fmt_of g) i (s2\<lparr>gm_loading_image := 0\<rparr>)
          else add_unprocessed (tt_of g) i (s2\<lparr>gm_loading_image := 0\<rparr>)) = Inr s4"
    and "add_upload env i s4 = Inr s'"
proof -
  let ?init = "\<not> (tt_of g0 = CHR ''d'' \<and> gm_loading_image self \<noteq> 0)"
  let ?r0 = "if ?init then handle_add_init env g0 iid self else handle_add_continue g0 self"
  have unf: "handle_add_command env self g0 iid =
     (case ?r0 of
        Inl a \<Rightarrow> (a, None)
      | Inr (s1, i) \<Rightarrow>
          let g = (if ?init then g0 else gm_last_init_graphics_command s1);
              tt = tt_of g; fmt = fmt_of g
          in case add_transmit env g tt fmt i s1 of
               Inl a \<Rightarrow> (a, None)
             | Inr s2 \<Rightarrow>
                 if \<not> img_data_loaded (gm_images s2 ! i) then (s2, None)
                 else
                   let s3 = s2\<lparr>gm_loading_image := 0\<rparr> in
                   case (if g_compressed g \<noteq> CHR 0x00 \<or> fmt = 100
                         then add_process env g fmt i s3 else add_unprocessed tt i s3) of
                     Inl a \<Rightarrow> (a, None)
                   | Inr s4 \<Rightarrow>
                       (case add_upload env i s4 of
                          Inl a \<Rightarrow> (a, None)
                        | Inr s5 \<Rightarrow> (s5, Some i)))"
    by (simp only: handle_add_command_def Let_def)
  from assms obtain s1 j where r0: "?r0 = Inr (s1, j)"
    unfolding unf by (cases ?r0) auto
  define g where "g = (if ?init then g0 else gm_last_init_graphics_command s1)"
  from assms r0 have a1: "(case add_transmit env g (tt_of g) (fmt_of g) j s1 of
               Inl a \<Rightarrow> (a, None)
             | Inr s2 \<Rightarrow>
                 if \<not> img_data_loaded (gm_images s2 ! j) then (s2, None)
                 else
                   case (if g_compressed g \<noteq> CHR 0x00 \<or> fmt_of g = 100
                         then add_process env g (fmt_of g) j (s2\<lparr>gm_loading_image := 0\<rparr>)
                         else add_unprocessed (tt_of g) j (s2\<lparr>gm_loading_image := 0\<rparr>)) of
                     Inl a \<Rightarrow> (a, None)
                   | Inr s4 \<Rightarrow>
                       (case add_upload env j s4 of
                          Inl a \<Rightarrow> (a, None)
                        | Inr s5 \<Rightarrow> (s5, Some j))) = (s', Some i)"
    unfolding g_def by (simp only: unf sum.case prod.case Let_def)
  then obtain s2 where r2: "add_transmit env g (tt_of g) (fmt_of g) j s1 = Inr s2"
    by (cases "add_transmit env g (tt_of g) (fmt_of g) j s1") auto
  from a1 r2 have dl: "img_data_loaded (gm_images s2 ! j)"
    by (auto split: if_splits)
  let ?r4 = "if g_compressed g \<noteq> CHR 0x00 \<or> fmt_of g = 100
             then add_process env g (fmt_of g) j (s2\<lparr>gm_loading_image := 0\<rparr>)
             else add_unprocessed (tt_of g) j (s2\<lparr>gm_loading_image := 0\<rparr>)"
  from a1 r2 dl have a2: "(case ?r4 of
                     Inl a \<Rightarrow> (a, None)
                   | Inr s4 \<Rightarrow>
                       (case add_upload env j s4 of
                          Inl a \<Rightarrow> (a, None)
                        | Inr s5 \<Rightarrow> (s5, Some j))) = (s', Some i)"
    by simp
  then obtain s4 where r4: "?r4 = Inr s4" by (cases ?r4) auto
  from a2 r4 have r5: "add_upload env j s4 = Inr s'" and ij: "i = j"
    by (auto split: sum.splits)
  from r0 g_def r2 dl r4 r5 show thesis
    unfolding ij[symmetric] by (rule that)
qed

text \<open>
  C10. With \<^verbatim>\<open>send_to_gpu\<close> off, an add that succeeds (it returns the image) leaves
  the image loaded with its bitmap retained in \<^verbatim>\<open>load_data\<close> and with a
  \<^verbatim>\<open>used_storage\<close> of 0, and the manager's \<^verbatim>\<open>used_storage\<close> is not larger than
  before. The state the add starts from covers the storage of its images, and the
  image that a later chunk continues is as its first chunk left it.
\<close>

theorem C10_add_without_gpu:
  assumes gpu: "\<not> send_to_gpu self"
    and ok: "handle_add_command env self g iid = (s', Some i)"
    and cov: "storage_covered self"
    and rdy: "loading_image_ready self"
  shows "img_used_storage (gm_images s' ! i) = 0
    \<and> uint (gm_used_storage s') \<le> uint (gm_used_storage self)
    \<and> bitmap_retained (img_load_data (gm_images s' ! i))
    \<and> img_data_loaded (gm_images s' ! i)"
proof -
  let ?U = "uint (gm_used_storage self)"
  let ?init = "\<not> (tt_of g = CHR ''d'' \<and> gm_loading_image self \<noteq> 0)"
  from ok obtain s1 s2 s4 g1 where
    r0: "(if ?init then handle_add_init env g iid self else handle_add_continue g self) = Inr (s1, i)"
    and g1: "g1 = (if ?init then g else gm_last_init_graphics_command s1)"
    and r2: "add_transmit env g1 (tt_of g1) (fmt_of g1) i s1 = Inr s2"
    and dl2: "img_data_loaded (gm_images s2 ! i)"
    and r4: "(if g_compressed g1 \<noteq> CHR 0x00 \<or> fmt_of g1 = 100
          then add_process env g1 (fmt_of g1) i (s2\<lparr>gm_loading_image := 0\<rparr>)
          else add_unprocessed (tt_of g1) i (s2\<lparr>gm_loading_image := 0\<rparr>)) = Inr s4"
    and r5: "add_upload env i s4 = Inr s'"
    by (rule handle_add_command_SomeE)
  have t1: "tracked ?U i s1"
  proof (cases ?init)
    case True
    with r0 have "handle_add_init env g iid self = Inr (s1, i)" by simp
    from handle_add_init_tracked(1)[OF this gpu cov] show ?thesis .
  next
    case False
    with r0 have "handle_add_continue g self = Inr (s1, i)" by simp
    from handle_add_continue_tracked[OF this gpu rdy] show ?thesis by simp
  qed
  have b1: "ld_buf (img_load_data (gm_images s1 ! i))" if "tt_of g1 = CHR ''d''"
  proof (cases ?init)
    case True
    with r0 have "handle_add_init env g iid self = Inr (s1, i)" by simp
    from handle_add_init_tracked(2)[OF this gpu cov] that True g1 show ?thesis by simp
  next
    case False
    with r0 have "handle_add_continue g self = Inr (s1, i)" by simp
    from handle_add_continue_tracked[OF this gpu rdy] show ?thesis by simp
  qed
  from add_transmit_tracked[OF r2 t1 dl2 b1]
  have t2: "tracked ?U i s2"
    and b2: "if tt_of g1 = CHR ''d'' then ld_buf (img_load_data (gm_images s2 ! i))
             else ld_mapped_file (img_load_data (gm_images s2 ! i))"
    by simp_all
  let ?s3 = "s2\<lparr>gm_loading_image := 0\<rparr>"
  have t3: "tracked ?U i ?s3" "img_data_loaded (gm_images ?s3 ! i)"
    "if tt_of g1 = CHR ''d'' then ld_buf (img_load_data (gm_images ?s3 ! i))
     else ld_mapped_file (img_load_data (gm_images ?s3 ! i))"
    using t2 dl2 b2 by simp_all
  have t4: "tracked ?U i s4 \<and> bitmap_retained (img_load_data (gm_images s4 ! i))
      \<and> img_data_loaded (gm_images s4 ! i)"
  proof (cases "g_compressed g1 \<noteq> CHR 0x00 \<or> fmt_of g1 = 100")
    case True
    with r4 have "add_process env g1 (fmt_of g1) i ?s3 = Inr s4" by simp
    from add_process_tracked[OF this t3(1) True t3(2)] show ?thesis .
  next
    case False
    with r4 have "add_unprocessed (tt_of g1) i ?s3 = Inr s4" by simp
    from add_unprocessed_tracked[OF this t3(1) t3(3) t3(2)] show ?thesis .
  qed
  from r5 t4 have "s' = s4" by (intro add_upload_no_gpu) (simp_all add: tracked_def)
  with t4 show ?thesis by (simp add: tracked_def)
qed

theorem C10_add_without_gpu_witness:
  "snd (handle_add_command env_ok world_no_gpu_loading (chunk_cmd 2) 0) = Some 0
   \<and> img_used_storage (gm_images (fst (handle_add_command env_ok world_no_gpu_loading
        (chunk_cmd 2) 0)) ! 0) = 0
   \<and> uint (gm_used_storage (fst (handle_add_command env_ok world_no_gpu_loading (chunk_cmd 2) 0)))
        \<le> uint (gm_used_storage world_no_gpu_loading)
   \<and> bitmap_retained (img_load_data (gm_images (fst (handle_add_command env_ok
        world_no_gpu_loading (chunk_cmd 2) 0)) ! 0))
   \<and> img_data_loaded (gm_images (fst (handle_add_command env_ok world_no_gpu_loading
        (chunk_cmd 2) 0)) ! 0)
   \<and> gm_used_storage (fst (handle_add_command env_ok world_no_gpu_loading (chunk_cmd 2) 0)) = 0
   \<and> ld_buf_used (img_load_data (gm_images (fst (handle_add_command env_ok world_no_gpu_loading
        (chunk_cmd 2) 0)) ! 0)) = 4"
proof -
  let ?r = "handle_add_command env_ok world_no_gpu_loading (chunk_cmd 2) 0"
  have gpu: "\<not> send_to_gpu world_no_gpu_loading" by code_simp
  have s: "snd ?r = Some 0" by code_simp
  then have ok: "?r = (fst ?r, Some 0)" by (simp add: prod_eq_iff)
  have cov: "storage_covered world_no_gpu_loading" by code_simp
  have rdy: "loading_image_ready world_no_gpu_loading" by code_simp
  have u: "gm_used_storage (fst ?r) = 0" by code_simp
  have b: "ld_buf_used (img_load_data (gm_images (fst ?r) ! 0)) = 4" by code_simp
  from C10_add_without_gpu[OF gpu ok cov rdy] s u b show ?thesis by simp
qed

end
